theory Spec2Isabelle
  imports Main
begin

section \<open>The OpenDec compiler: lexer, parser, compilation state and processor\<close>

text \<open>
  A shallow embedding of the Python sources \<^verbatim>\<open>components/*.py\<close>, \<^verbatim>\<open>constants.py\<close> and
  \<^verbatim>\<open>utils/*.py\<close>. Exceptions are values of the type \<open>error\<close>; every function that can
  raise returns \<open>error + 'a\<close>. The human-readable details string of an exception is
  not modelled: an exception is its class, its position and its type tag.
\<close>

subsection \<open>Python numbers\<close>

text \<open>
  A Python \<^verbatim>\<open>float\<close> is an IEEE binary64 number: \<open>Fin m e\<close> is the number \<open>m * 2 ^ e\<close>,
  kept normalised (\<open>m\<close> odd, or \<open>m = 0\<close> and \<open>e = 0\<close> for \<^verbatim>\<open>0.0\<close>), \<open>NZero\<close> is \<^verbatim>\<open>-0.0\<close>,
  \<open>PInf\<close> and \<open>NInf\<close> are \<^verbatim>\<open>inf\<close> and \<^verbatim>\<open>-inf\<close>, and \<open>NaN\<close> is \<^verbatim>\<open>nan\<close>. Arithmetic rounds
  to nearest, ties to even, with 53 bits of precision, gradual underflow below
  \<open>2 ^ -1022\<close> and overflow to an infinity from \<open>2 ^ 1024\<close> on.
\<close>

datatype pyfloat = Fin int int | NZero | PInf | NInf | NaN

function ilog2 :: "int \<Rightarrow> int" where
  "ilog2 n = (if n < 2 then 0 else 1 + ilog2 (n div 2))"
  by pat_completeness auto
termination
  by (relation "measure nat") auto

declare ilog2.simps [simp del]

function norm_me :: "int \<Rightarrow> int \<Rightarrow> pyfloat" where
  "norm_me m e =
     (if m \<le> 0 then Fin 0 0
      else if even m then norm_me (m div 2) (e + 1)
      else Fin m e)"
  by pat_completeness auto
termination
  by (relation "measure (\<lambda>(m, e). nat m)") auto

declare norm_me.simps [simp del]

definition round_ratio :: "int \<Rightarrow> int \<Rightarrow> pyfloat" where
  \<comment> \<open>the binary64 number nearest to \<open>a / b\<close>, for \<open>a \<ge> 0\<close> and \<open>b > 0\<close>\<close>
  "round_ratio a b =
     (if a \<le> 0 then Fin 0 0
      else
        let e0 = ilog2 a - ilog2 b;
            e = (if b * 2 ^ nat e0 \<le> a * 2 ^ nat (- e0) then e0 else e0 - 1);
            q = max e (- 1022) - 52;
            num = a * 2 ^ nat (- q);
            den = b * 2 ^ nat q;
            f = num div den;
            r = num mod den;
            n = (if 2 * r < den then f
                 else if den < 2 * r then f + 1
                 else if even f then f else f + 1)
        in if 971 < q \<or> (q = 971 \<and> n = 2 ^ 53) then PInf else norm_me n q)"

text \<open>The sign of a float, its negation and its absolute value.\<close>

fun float_negative :: "pyfloat \<Rightarrow> bool" where
  "float_negative (Fin m e) = (m < 0)"
| "float_negative NZero = True"
| "float_negative PInf = False"
| "float_negative NInf = True"
| "float_negative NaN = False"

fun float_neg :: "pyfloat \<Rightarrow> pyfloat" where
  "float_neg (Fin m e) = (if m = 0 then NZero else Fin (- m) e)"
| "float_neg NZero = Fin 0 0"
| "float_neg PInf = NInf"
| "float_neg NInf = PInf"
| "float_neg NaN = NaN"

fun float_abs :: "pyfloat \<Rightarrow> pyfloat" where
  "float_abs (Fin m e) = Fin (abs m) e"
| "float_abs NZero = Fin 0 0"
| "float_abs PInf = PInf"
| "float_abs NInf = PInf"
| "float_abs NaN = NaN"

definition float_is_inf :: "pyfloat \<Rightarrow> bool" where
  "float_is_inf x = (x = PInf \<or> x = NInf)"

definition float_signed :: "bool \<Rightarrow> pyfloat \<Rightarrow> pyfloat" where
  "float_signed negative x = (if negative then float_neg x else x)"

definition int_truediv :: "int \<Rightarrow> int \<Rightarrow> pyfloat" where
  \<comment> \<open>\<^verbatim>\<open>a / b\<close> for two ints, \<open>b\<close> not zero: the quotient, correctly rounded\<close>
  "int_truediv a b = float_signed ((a < 0) \<noteq> (b < 0)) (round_ratio (abs a) (abs b))"

definition float_of_int :: "int \<Rightarrow> pyfloat" where
  \<comment> \<open>\<^verbatim>\<open>float(i)\<close>; where it gives an infinity Python raises \<^verbatim>\<open>OverflowError\<close>\<close>
  "float_of_int i = float_signed (i < 0) (round_ratio (abs i) 1)"

fun float_mul_abs :: "pyfloat \<Rightarrow> pyfloat \<Rightarrow> pyfloat" where
  \<comment> \<open>the product of two floats that are not negative\<close>
  "float_mul_abs PInf PInf = PInf"
| "float_mul_abs PInf (Fin m e) = (if m = 0 then NaN else PInf)"
| "float_mul_abs (Fin m e) PInf = (if m = 0 then NaN else PInf)"
| "float_mul_abs (Fin m1 e1) (Fin m2 e2) =
     round_ratio (m1 * m2 * 2 ^ nat (e1 + e2)) (2 ^ nat (- (e1 + e2)))"
| "float_mul_abs x y = NaN"

definition float_mul :: "pyfloat \<Rightarrow> pyfloat \<Rightarrow> pyfloat" where
  "float_mul x y =
     float_signed (float_negative x \<noteq> float_negative y) (float_mul_abs (float_abs x) (float_abs y))"

fun float_div_abs :: "pyfloat \<Rightarrow> pyfloat \<Rightarrow> pyfloat" where
  \<comment> \<open>the quotient of two floats that are not negative, the divisor not zero\<close>
  "float_div_abs PInf (Fin m e) = PInf"
| "float_div_abs (Fin m e) PInf = Fin 0 0"
| "float_div_abs (Fin m1 e1) (Fin m2 e2) =
     round_ratio (m1 * 2 ^ nat (e1 - e2)) (m2 * 2 ^ nat (e2 - e1))"
| "float_div_abs x y = NaN"

definition float_div :: "pyfloat \<Rightarrow> pyfloat \<Rightarrow> pyfloat" where
  \<comment> \<open>the divisor is not zero\<close>
  "float_div x y =
     float_signed (float_negative x \<noteq> float_negative y) (float_div_abs (float_abs x) (float_abs y))"

fun float_is_zero :: "pyfloat \<Rightarrow> bool" where
  "float_is_zero (Fin m e) = (m = 0)"
| "float_is_zero NZero = True"
| "float_is_zero x = False"

fun float_trunc :: "pyfloat \<Rightarrow> int option" where
  \<comment> \<open>the integer part of a finite float: the fraction is cut off, towards zero\<close>
  "float_trunc (Fin m e) =
     Some (if 0 \<le> e then m * 2 ^ nat e
           else if 0 \<le> m then m div 2 ^ nat (- e)
           else - ((- m) div 2 ^ nat (- e)))"
| "float_trunc NZero = Some 0"
| "float_trunc x = None"

fun float_eq_int :: "pyfloat \<Rightarrow> int \<Rightarrow> bool" where
  \<comment> \<open>Python compares an int and a float by their exact values\<close>
  "float_eq_int (Fin m e) i = (0 \<le> e \<and> m * 2 ^ nat e = i)"
| "float_eq_int NZero i = (i = 0)"
| "float_eq_int x i = False"

fun float_sum_gt0 :: "pyfloat \<Rightarrow> pyfloat \<Rightarrow> bool" where
  \<comment> \<open>\<^verbatim>\<open>x + y > 0\<close> for a finite \<open>x\<close>: the rounded sum has the sign of the exact sum\<close>
  "float_sum_gt0 x NaN = False"
| "float_sum_gt0 x PInf = True"
| "float_sum_gt0 x NInf = False"
| "float_sum_gt0 (Fin m1 e1) (Fin m2 e2) =
     (0 < m1 * 2 ^ nat (e1 - min e1 e2) + m2 * 2 ^ nat (e2 - min e1 e2))"
| "float_sum_gt0 (Fin m1 e1) NZero = (0 < m1)"
| "float_sum_gt0 NZero (Fin m2 e2) = (0 < m2)"
| "float_sum_gt0 x y = False"

text \<open>A number is an \<^verbatim>\<open>int\<close> or a \<^verbatim>\<open>float\<close>; a parameter may also be a \<^verbatim>\<open>str\<close>.\<close>

datatype num = IntV int | FloatV pyfloat

datatype param = PInt int | PFloat pyfloat | PStr string

subsection \<open>Exceptions\<close>

record position =
  filename :: string
  index :: nat
  line :: nat
  column :: nat

datatype error =
    ReaderException
  | LexerException position string
  | ParserException position string
  | ProcessorException position string
  | StateException position string
  | ValidationException position string
  | PyTypeError
  | PyIndexError
  | PyKeyError
  | PyZeroDivisionError
  | PyOverflowError
  | PyValueError
  | PyAttributeError
  | PyAssertionError
  | PyOSError
  | PyMemoryError
  | OutOfFuel
  | Impossible

subsection \<open>The operating system and the built-ins the sources call\<close>

text \<open>
  The file system, \<^verbatim>\<open>os.path\<close>, the built-in \<^verbatim>\<open>repr\<close> of a float, the number of
  characters of the longest string the memory can hold and the table
  \<^verbatim>\<open>VOICE_DEFAULTS\<close> (imported from \<^verbatim>\<open>constants.py\<close>, which does not define it) are
  parameters of the model.
\<close>

record env =
  getcwd :: string
  isfile :: "string \<Rightarrow> bool"
  isfile_fd :: "int \<Rightarrow> bool"
  readfile :: "string \<Rightarrow> string option"
  abspath :: "string \<Rightarrow> string"
  path_join :: "string \<Rightarrow> string \<Rightarrow> string"
  float_repr :: "pyfloat \<Rightarrow> string"
  memory :: int
  VOICE_DEFAULTS :: "(string \<times> int) list"

subsection \<open>constants.py\<close>

definition SPECIAL_CHARACTERS :: string where
  "SPECIAL_CHARACTERS = '',{}[]<>''"

definition WHITESPACE :: string where
  "WHITESPACE = [CHR '' '', CHR 0x0A, CHR 0x0D, CHR 0x09]"

definition BREAK_CHARS :: string where
  "BREAK_CHARS = WHITESPACE @ SPECIAL_CHARACTERS @ ''/''"

definition digits :: string where
  "digits = ''0123456789''"

subsection \<open>position.py and reader.py\<close>

definition Position :: "string \<Rightarrow> position" where
  "Position fname = \<lparr>filename = fname, index = 0, line = 0, column = 0\<rparr>"

definition Position_advance :: "position \<Rightarrow> string \<Rightarrow> position" where
  "Position_advance p c =
     (let p1 = p\<lparr>index := index p + 1, column := column p + 1\<rparr>
      in if c = [CHR 0x0A] then p1\<lparr>column := 0, line := line p1 + 1\<rparr> else p1)"

text \<open>
  The reader holds the source text and the position. \<open>rest\<close> is the source from the
  position's index on (\<^verbatim>\<open>source[pos.index:]\<close>), so that \<^verbatim>\<open>reader.char\<close> is its first
  character, or the empty string at the end of the source.
\<close>

record reader =
  rest :: string
  pos :: position

definition char :: "reader \<Rightarrow> string" where
  "char r = take 1 (rest r)"

definition char_in :: "string \<Rightarrow> string \<Rightarrow> bool" where
  \<comment> \<open>\<^verbatim>\<open>c in s\<close> for a string \<open>c\<close> of at most one character\<close>
  "char_in c s = (case c of [] \<Rightarrow> True | x # _ \<Rightarrow> x \<in> set s)"

definition py_isspace :: "char \<Rightarrow> bool" where
  \<comment> \<open>the white space \<^verbatim>\<open>str.strip\<close> removes, among the characters below 256\<close>
  "py_isspace c = (c \<in> set [CHR '' '', CHR 0x09, CHR 0x0A, CHR 0x0B, CHR 0x0C, CHR 0x0D,
                             CHR 0x1C, CHR 0x1D, CHR 0x1E, CHR 0x1F, CHR 0x85, CHR 0xA0])"

definition py_strip :: "string \<Rightarrow> string" where
  "py_strip s = rev (dropWhile py_isspace (rev (dropWhile py_isspace s)))"

definition Reader :: "env \<Rightarrow> string \<Rightarrow> error + reader" where
  "Reader os source0 =
     (let source = py_strip source0 in
      if length source = 0 then Inl ReaderException
      else
        (case (if isfile os source
               then (case readfile os source of
                       None \<Rightarrow> Inl PyOSError
                     | Some content \<Rightarrow> Inr (source, content))
               else Inr ([], source)) of
           Inl e \<Rightarrow> Inl e
         | Inr (fname, src) \<Rightarrow>
             (case src of
                [] \<Rightarrow> Inl PyIndexError
              | c # cs \<Rightarrow> Inr \<lparr>rest = src, pos = Position fname\<rparr>)))"

definition Reader_advance :: "reader \<Rightarrow> reader" where
  "Reader_advance r = r\<lparr>pos := Position_advance (pos r) (char r), rest := tl (rest r)\<rparr>"

definition getpos :: "reader \<Rightarrow> position" where
  "getpos r = pos r"

subsection \<open>token.py\<close>

datatype TokenType =
    T_FLOAT | T_INT | T_STRING
  | T_COMMA | T_LBRACE | T_RBRACE | T_LBRACKET | T_RBRACKET | T_LCHEVRON | T_RCHEVRON
  | T_EOF

datatype tvalue = VInt int | VFloat pyfloat | VStr string | VNone

datatype token = Token TokenType tvalue position

fun token_type :: "token \<Rightarrow> TokenType" where
  "token_type (Token t v p) = t"

fun token_value :: "token \<Rightarrow> tvalue" where
  "token_value (Token t v p) = v"

fun token_pos :: "token \<Rightarrow> position" where
  "token_pos (Token t v p) = p"

subsection \<open>lexer.py\<close>

definition TOKENTYPE_SPECIALCHAR_MAP :: "(char \<times> TokenType) list" where
  "TOKENTYPE_SPECIALCHAR_MAP =
     [(CHR '','', T_COMMA), (CHR ''{'', T_LBRACE), (CHR ''}'', T_RBRACE),
      (CHR ''['', T_LBRACKET), (CHR '']'', T_RBRACKET),
      (CHR ''<'', T_LCHEVRON), (CHR ''>'', T_RCHEVRON)]"

lemma rest_Reader_advance [simp]: "rest (Reader_advance r) = tl (rest r)"
  by (simp add: Reader_advance_def)

lemma char_nonempty [simp]: "(char r = []) = (rest r = [])"
  by (cases "rest r") (simp_all add: char_def)

lemma char_eq_single: "char r = [c] \<Longrightarrow> rest r \<noteq> []"
  by (cases "rest r") (simp_all add: char_def)

text \<open>The \<^verbatim>\<open>while\<close> loop of \<^verbatim>\<open>read_remaining\<close>.\<close>

function read_nonbreak :: "reader \<Rightarrow> string \<Rightarrow> string \<times> reader" where
  "read_nonbreak r remaining =
     (if char r \<noteq> [] \<and> \<not> char_in (char r) BREAK_CHARS
      then read_nonbreak (Reader_advance r) (remaining @ char r)
      else (remaining, r))"
  by pat_completeness auto
termination
  by (relation "measure (\<lambda>(r, s). length (rest r))") auto

declare read_nonbreak.simps [simp del]

text \<open>The loop of an inline comment: up to the end of the line or of the source.\<close>

function skip_inline :: "reader \<Rightarrow> reader" where
  "skip_inline r =
     (if char r \<noteq> [] \<and> char r \<noteq> [CHR 0x0A] then skip_inline (Reader_advance r) else r)"
  by pat_completeness auto
termination
  by (relation "measure (\<lambda>r. length (rest r))") auto

declare skip_inline.simps [simp del]

text \<open>
  The loop of a block comment, entered on the \<^verbatim>\<open>*\<close> of the opener. \<open>None\<close> is the
  loop's \<^verbatim>\<open>else\<close> clause: the source ended before the loop reached a \<^verbatim>\<open>break\<close>.
\<close>

function skip_block :: "reader \<Rightarrow> reader option" where
  "skip_block r =
     (if char r \<noteq> [] then
        (let r1 = Reader_advance r in
         if char r1 = ''*'' then
           (let r2 = Reader_advance r1 in
            if char r2 = ''/'' then Some (Reader_advance r2) else skip_block r2)
         else skip_block r1)
      else None)"
  by pat_completeness auto
termination
  by (relation "measure (\<lambda>r. length (rest r))") (auto simp: less_Suc_eq_le)

declare skip_block.simps [simp del]


lemma read_nonbreak_le:
  "read_nonbreak r s = (s', r') \<Longrightarrow> length (rest r') \<le> length (rest r)"
proof (induction r s rule: read_nonbreak.induct)
  case (1 r remaining)
  show ?case
  proof (cases "char r \<noteq> [] \<and> \<not> char_in (char r) BREAK_CHARS")
    case True
    with "1.prems" have "read_nonbreak (Reader_advance r) (remaining @ char r) = (s', r')"
      by (simp add: read_nonbreak.simps [of r])
    with "1.IH" True have "length (rest r') \<le> length (rest (Reader_advance r))"
      by blast
    then show ?thesis by simp
  next
    case False
    with "1.prems" show ?thesis
      by (auto simp: read_nonbreak.simps [of r])
  qed
qed

lemma read_nonbreak_less:
  assumes "char r \<noteq> []" "\<not> char_in (char r) BREAK_CHARS" "read_nonbreak r s = (s', r')"
  shows "length (rest r') < length (rest r)"
proof -
  from assms have "read_nonbreak (Reader_advance r) (s @ char r) = (s', r')"
    by (simp add: read_nonbreak.simps [of r])
  then have "length (rest r') \<le> length (rest (Reader_advance r))"
    by (rule read_nonbreak_le)
  with assms(1) show ?thesis by (cases "rest r") auto
qed

lemma skip_inline_le: "length (rest (skip_inline r)) \<le> length (rest r)"
proof (induction r rule: skip_inline.induct)
  case (1 r)
  show ?case
  proof (cases "char r \<noteq> [] \<and> char r \<noteq> [CHR 0x0A]")
    case True
    with 1 have "length (rest (skip_inline (Reader_advance r))) \<le> length (rest (Reader_advance r))"
      by blast
    with True show ?thesis by (simp add: skip_inline.simps [of r])
  next
    case False
    then show ?thesis by (auto simp: skip_inline.simps [of r])
  qed
qed

lemma skip_block_le: "skip_block r = Some r' \<Longrightarrow> length (rest r') \<le> length (rest r)"
proof (induction r rule: skip_block.induct)
  case (1 r)
  show ?case
  proof (cases "char r \<noteq> []")
    case False
    with "1.prems" show ?thesis by (simp add: skip_block.simps [of r])
  next
    case ne: True
    define r1 where "r1 = Reader_advance r"
    define r2 where "r2 = Reader_advance r1"
    have l1: "length (rest r1) \<le> length (rest r)" by (simp add: r1_def)
    have l2: "length (rest r2) \<le> length (rest r1)" by (simp add: r2_def)
    show ?thesis
    proof (cases "char r1 = ''*''")
      case star: True
      show ?thesis
      proof (cases "char r2 = ''/''")
        case True
        with ne star "1.prems" have "r' = Reader_advance r2"
          by (simp add: skip_block.simps [of r] r1_def r2_def Let_def)
        with l1 l2 show ?thesis by simp
      next
        case False
        with ne star "1.prems" have "skip_block r2 = Some r'"
          by (simp add: skip_block.simps [of r] r1_def r2_def Let_def)
        with "1.IH"(1) [OF ne r1_def star r2_def False] have "length (rest r') \<le> length (rest r2)"
          by blast
        with l1 l2 show ?thesis by simp
      qed
    next
      case False
      with ne "1.prems" have "skip_block r1 = Some r'"
        by (simp add: skip_block.simps [of r] r1_def Let_def)
      with "1.IH"(2) [OF ne r1_def False] have "length (rest r') \<le> length (rest r1)"
        by blast
      with l1 show ?thesis by simp
    qed
  qed
qed

text \<open>
  \<^verbatim>\<open>read_remaining\<close> and \<^verbatim>\<open>scan_comment\<close> call each other. An unterminated block
  comment reaches \<^verbatim>\<open>raise LexerException(pos, "OpenBlockCommentException" "Found ...")\<close>:
  the two string literals have no comma between them, so the constructor is called
  with two arguments where \<^verbatim>\<open>LoggingPositionalException.__init__\<close> takes three, and
  the call raises Python's \<^verbatim>\<open>TypeError\<close> before any \<^verbatim>\<open>LexerException\<close> exists.
\<close>

function read_remaining :: "reader \<Rightarrow> error + (string \<times> reader)"
  and scan_comment :: "reader \<Rightarrow> error + (token option \<times> reader)" where
  "read_remaining r =
     (let (remaining, r1) = read_nonbreak r [] in
      if char r1 = ''/'' then
        (case scan_comment r1 of
           Inl e \<Rightarrow> Inl e
         | Inr (None, r2) \<Rightarrow> Inr (remaining, r2)
         | Inr (Some tok, r2) \<Rightarrow>
             (case token_value tok of
                VStr s \<Rightarrow> Inr (remaining @ s, r2)
              | _ \<Rightarrow> Inl PyTypeError))
      else Inr (remaining, r1))"
| "scan_comment r =
     (let p = getpos r; r1 = Reader_advance r in
      if char r1 = ''/'' then Inr (None, skip_inline r1)
      else if char r1 = ''*'' then
        (case skip_block r1 of
           None \<Rightarrow> Inl PyTypeError
         | Some r2 \<Rightarrow> Inr (None, r2))
      else
        (case read_remaining r1 of
           Inl e \<Rightarrow> Inl e
         | Inr (s, r2) \<Rightarrow> Inr (Some (Token T_STRING (VStr (''/'' @ s)) p), r2)))"
  by pat_completeness auto
termination
proof (relation "measure (\<lambda>x. case x of
          Inl r \<Rightarrow> 2 * length (rest r) + 1
        | Inr r \<Rightarrow> if rest r = [] then 2 else 2 * length (rest r))")
  show "wf (measure (\<lambda>x. case x of
          Inl r \<Rightarrow> 2 * length (rest r) + 1
        | Inr r \<Rightarrow> if rest r = [] then 2 else 2 * length (rest r)))"
    by simp
next
  fix r :: reader and x :: "string \<times> reader" and xa y
  assume "x = read_nonbreak r []" "(xa, y) = x" "char y = ''/''"
  then have "read_nonbreak r [] = (xa, y)" by simp
  then have "length (rest y) \<le> length (rest r)" by (rule read_nonbreak_le)
  moreover from \<open>char y = ''/''\<close> have "rest y \<noteq> []" by (rule char_eq_single)
  ultimately show "(Inr y, Inl r) \<in> measure (\<lambda>x. case x of
          Inl r \<Rightarrow> 2 * length (rest r) + 1
        | Inr r \<Rightarrow> if rest r = [] then 2 else 2 * length (rest r))"
    by simp
next
  fix r :: reader and x xa
  assume "xa = Reader_advance r"
  then show "(Inl xa, Inr r) \<in> measure (\<lambda>x. case x of
          Inl r \<Rightarrow> 2 * length (rest r) + 1
        | Inr r \<Rightarrow> if rest r = [] then 2 else 2 * length (rest r))"
    by (cases "rest r") auto
qed

declare read_remaining.simps [simp del] scan_comment.simps [simp del]

lemma read_remaining_scan_comment_le:
  "read_remaining r = Inr (s, r') \<longrightarrow> length (rest r') \<le> length (rest r)"
  "scan_comment ra = Inr (t, ra') \<longrightarrow> length (rest ra') \<le> length (rest (Reader_advance ra))"
proof (induction r and ra arbitrary: s r' and t ra' rule: read_remaining_scan_comment.induct)
  case (1 r)
  obtain remaining r1 where rn: "read_nonbreak r [] = (remaining, r1)"
    by (cases "read_nonbreak r []") auto
  then have le1: "length (rest r1) \<le> length (rest r)" by (rule read_nonbreak_le)
  show ?case
  proof
    assume a: "read_remaining r = Inr (s, r')"
    show "length (rest r') \<le> length (rest r)"
    proof (cases "char r1 = ''/''")
      case False
      with a rn have "r' = r1" by (simp add: read_remaining.simps [of r])
      with le1 show ?thesis by simp
    next
      case True
      with a rn obtain t0 where "scan_comment r1 = Inr (t0, r')"
        by (auto simp: read_remaining.simps [of r] split: sum.splits option.splits tvalue.splits)
      with "1.IH" [OF rn [symmetric] refl True]
      have "length (rest r') \<le> length (rest (Reader_advance r1))" by blast
      with le1 show ?thesis by simp
    qed
  qed
next
  case (2 r)
  define r1 where "r1 = Reader_advance r"
  show ?case
  proof
    assume a: "scan_comment r = Inr (t, ra')"
    show "length (rest ra') \<le> length (rest (Reader_advance r))"
    proof (cases "char r1 = ''/''")
      case True
      with a have "ra' = skip_inline r1"
        by (simp add: scan_comment.simps [of r] r1_def Let_def)
      then show ?thesis using skip_inline_le [of r1] by (simp add: r1_def)
    next
      case nsl: False
      show ?thesis
      proof (cases "char r1 = ''*''")
        case True
        with a nsl have "skip_block r1 = Some ra'"
          by (auto simp: scan_comment.simps [of r] r1_def Let_def split: option.splits)
        then show ?thesis using skip_block_le [of r1 ra'] by (simp add: r1_def)
      next
        case False
        with a nsl obtain s0 where "read_remaining r1 = Inr (s0, ra')"
          by (auto simp: scan_comment.simps [of r] r1_def Let_def split: sum.splits)
        with "2.IH" [OF refl r1_def nsl False] show ?thesis by (simp add: r1_def)
      qed
    qed
  qed
qed

lemma read_remaining_le:
  "read_remaining r = Inr (s, r') \<Longrightarrow> length (rest r') \<le> length (rest r)"
  using read_remaining_scan_comment_le(1) by blast

lemma scan_comment_less:
  "scan_comment r = Inr (t, r') \<Longrightarrow> rest r \<noteq> [] \<Longrightarrow> length (rest r') < length (rest r)"
  using read_remaining_scan_comment_le(2) [of r t r'] by (cases "rest r") auto

text \<open>\<^verbatim>\<open>int(number)\<close> and \<^verbatim>\<open>float(number)\<close> for the digit strings \<^verbatim>\<open>scan_number\<close> reads.\<close>

definition digit_val :: "char \<Rightarrow> int" where
  "digit_val c = of_char c - 48"

definition digits_value :: "string \<Rightarrow> int" where
  \<comment> \<open>the number a string of decimal digits writes\<close>
  "digits_value s = foldl (\<lambda>acc c. 10 * acc + digit_val c) 0 s"

definition py_int_of_str :: "string \<Rightarrow> error + int" where
  \<comment> \<open>\<^verbatim>\<open>int(number)\<close>: CPython refuses a string of more than 4300 digits\<close>
  "py_int_of_str s = (if 4300 < length s then Inl PyValueError else Inr (digits_value s))"

definition py_float_of_str :: "string \<Rightarrow> pyfloat" where
  "py_float_of_str s =
     (let ip = takeWhile (\<lambda>c. c \<noteq> CHR ''.'') s;
          fp = drop 1 (dropWhile (\<lambda>c. c \<noteq> CHR ''.'') s)
      in round_ratio (digits_value (ip @ fp)) (10 ^ length fp))"

text \<open>
  The loop of \<^verbatim>\<open>scan_number\<close>. Before it raises, \<^verbatim>\<open>scan_number\<close> calls
  \<^verbatim>\<open>read_remaining\<close>, whose own exception would come first.
\<close>

function scan_number_loop :: "position \<Rightarrow> reader \<Rightarrow> string \<Rightarrow> bool \<Rightarrow> error + (string \<times> bool \<times> reader)" where
  "scan_number_loop p r number fp =
     (if char r \<noteq> [] \<and> \<not> char_in (char r) BREAK_CHARS then
        (if char_in (char r) digits then
           scan_number_loop p (Reader_advance r) (number @ char r) fp
         else if char r = ''.'' \<and> fp then
           (case read_remaining r of
              Inl e \<Rightarrow> Inl e
            | Inr x \<Rightarrow> Inl (LexerException p ''ValueError''))
         else if char r = ''.'' then
           scan_number_loop p (Reader_advance r) (number @ char r) True
         else
           (case read_remaining r of
              Inl e \<Rightarrow> Inl e
            | Inr x \<Rightarrow> Inl (LexerException p ''ValueError'')))
      else Inr (number, fp, r))"
  by pat_completeness auto
termination
  by (relation "measure (\<lambda>(p, r, s, b). length (rest r))") (auto dest: char_eq_single)

declare scan_number_loop.simps [simp del]

definition scan_number :: "reader \<Rightarrow> error + (token \<times> reader)" where
  "scan_number r =
     (let p = getpos r in
      case scan_number_loop p r [] False of
        Inl e \<Rightarrow> Inl e
      | Inr (number, fp, r1) \<Rightarrow>
          if fp then Inr (Token T_FLOAT (VFloat (py_float_of_str number)) p, r1)
          else
            (case py_int_of_str number of
               Inl e \<Rightarrow> Inl e
             | Inr i \<Rightarrow> Inr (Token T_INT (VInt i) p, r1)))"

definition scan_string :: "reader \<Rightarrow> error + (token \<times> reader)" where
  "scan_string r =
     (let p = getpos r in
      case read_remaining r of
        Inl e \<Rightarrow> Inl e
      | Inr (s, r1) \<Rightarrow> Inr (Token T_STRING (VStr s) p, r1))"

lemma scan_number_loop_le:
  "scan_number_loop p r s b = Inr (s', b', r') \<Longrightarrow> length (rest r') \<le> length (rest r)"
proof (induction p r s b rule: scan_number_loop.induct)
  case (1 p r number fp)
  show ?case
  proof (cases "char r \<noteq> [] \<and> \<not> char_in (char r) BREAK_CHARS")
    case False
    with "1.prems" show ?thesis by (auto simp: scan_number_loop.simps [of p r])
  next
    case g: True
    show ?thesis
    proof (cases "char_in (char r) digits")
      case True
      with g "1.prems" have "scan_number_loop p (Reader_advance r) (number @ char r) fp = Inr (s', b', r')"
        by (simp add: scan_number_loop.simps [of p r])
      with "1.IH"(1) [OF g True] have "length (rest r') \<le> length (rest (Reader_advance r))" by blast
      then show ?thesis by simp
    next
      case nd: False
      show ?thesis
      proof (cases "char r = ''.'' \<and> \<not> fp")
        case True
        with g nd "1.prems" have "scan_number_loop p (Reader_advance r) (number @ char r) True = Inr (s', b', r')"
          by (simp add: scan_number_loop.simps [of p r])
        with "1.IH"(2) [OF g nd] True have "length (rest r') \<le> length (rest (Reader_advance r))" by blast
        then show ?thesis by simp
      next
        case False
        with g nd "1.prems" show ?thesis
          by (auto simp: scan_number_loop.simps [of p r] split: sum.splits if_splits)
      qed
    qed
  qed
qed

lemma scan_number_less:
  assumes "scan_number r = Inr (t, r')" "char r \<noteq> []" "char_in (char r) digits"
  shows "length (rest r') < length (rest r)"
proof -
  from assms(2) obtain c cs where rc: "rest r = c # cs" by (cases "rest r") auto
  with assms(3) have "c \<in> set digits" by (simp add: char_in_def char_def)
  then have nb: "\<not> char_in (char r) BREAK_CHARS"
    using rc by (auto simp: char_in_def char_def BREAK_CHARS_def WHITESPACE_def
        SPECIAL_CHARACTERS_def digits_def)
  from assms(1) obtain s' b' where "scan_number_loop (getpos r) r [] False = Inr (s', b', r')"
    by (auto simp: scan_number_def Let_def split: sum.splits if_splits)
  with assms(2,3) nb have "scan_number_loop (getpos r) (Reader_advance r) ([] @ char r) False = Inr (s', b', r')"
    by (simp add: scan_number_loop.simps [of _ r])
  then have "length (rest r') \<le> length (rest (Reader_advance r))" by (rule scan_number_loop_le)
  with rc show ?thesis by simp
qed

lemma scan_string_less:
  assumes "scan_string r = Inr (t, r')" "char r \<noteq> []" "\<not> char_in (char r) BREAK_CHARS"
  shows "length (rest r') < length (rest r)"
proof -
  obtain remaining r1 where rn: "read_nonbreak r [] = (remaining, r1)"
    by (cases "read_nonbreak r []") auto
  with assms(2,3) have l1: "length (rest r1) < length (rest r)" by (rule read_nonbreak_less)
  from assms(1) obtain s where rr: "read_remaining r = Inr (s, r')"
    by (auto simp: scan_string_def Let_def split: sum.splits)
  show ?thesis
  proof (cases "char r1 = ''/''")
    case False
    with rr rn have "r' = r1" by (simp add: read_remaining.simps [of r])
    with l1 show ?thesis by simp
  next
    case True
    with rr rn obtain t0 where "scan_comment r1 = Inr (t0, r')"
      by (auto simp: read_remaining.simps [of r] split: sum.splits option.splits tvalue.splits)
    moreover from True have "rest r1 \<noteq> []" by (rule char_eq_single)
    ultimately have "length (rest r') < length (rest r1)" by (rule scan_comment_less)
    with l1 show ?thesis by simp
  qed
qed

text \<open>The loop of \<^verbatim>\<open>get_tokens\<close>, and \<^verbatim>\<open>get_tokens\<close> itself.\<close>

function get_tokens_loop :: "reader \<Rightarrow> token list \<Rightarrow> error + token list" where
  "get_tokens_loop r tokens =
     (if char r \<noteq> [] then
        (if char_in (char r) WHITESPACE then get_tokens_loop (Reader_advance r) tokens
         else if char r = ''/'' then
           (case scan_comment r of
              Inl e \<Rightarrow> Inl e
            | Inr (None, r1) \<Rightarrow> get_tokens_loop r1 tokens
            | Inr (Some tok, r1) \<Rightarrow> get_tokens_loop r1 (tokens @ [tok]))
         else if char_in (char r) SPECIAL_CHARACTERS then
           (case map_of TOKENTYPE_SPECIALCHAR_MAP (hd (char r)) of
              None \<Rightarrow> Inl (LexerException (getpos r) ''SpecialCharImplementationException'')
            | Some ty \<Rightarrow>
                get_tokens_loop (Reader_advance r) (tokens @ [Token ty (VStr (char r)) (getpos r)]))
         else if char_in (char r) digits then
           (case scan_number r of
              Inl e \<Rightarrow> Inl e
            | Inr (tok, r1) \<Rightarrow> get_tokens_loop r1 (tokens @ [tok]))
         else
           (case scan_string r of
              Inl e \<Rightarrow> Inl e
            | Inr (tok, r1) \<Rightarrow> get_tokens_loop r1 (tokens @ [tok])))
      else Inr (tokens @ [Token T_EOF VNone (pos r)]))"
  by pat_completeness auto
termination
proof (relation "measure (\<lambda>(r, ts). length (rest r))", goal_cases)
  case 1
  show ?case by simp
next
  case (2 r tokens)
  then show ?case by (cases "rest r") auto
next
  case (3 r tokens x y r1)
  then show ?case using scan_comment_less [of r None r1] by (auto dest: char_eq_single)
next
  case (4 r tokens x y r1 tok)
  then show ?case using scan_comment_less [of r "Some tok" r1] by (auto dest: char_eq_single)
next
  case (5 r tokens ty)
  then show ?case by (cases "rest r") auto
next
  case (6 r tokens x tok r1)
  then show ?case using scan_number_less [of r tok r1] by simp
next
  case (7 r tokens x tok r1)
  then have "\<not> char_in (char r) BREAK_CHARS"
    by (cases "rest r") (auto simp: char_in_def char_def BREAK_CHARS_def)
  with 7 show ?case using scan_string_less [of r tok r1] by simp
qed

declare get_tokens_loop.simps [simp del]

definition get_tokens :: "reader \<Rightarrow> error + token list" where
  "get_tokens r = get_tokens_loop r []"

definition Lexer :: "env \<Rightarrow> string \<Rightarrow> error + reader" where
  "Lexer os source = Reader os source"

text \<open>\<^verbatim>\<open>Lexer(source).get_tokens()\<close>: from a source text, or a file's name, to its tokens.\<close>

definition scan :: "env \<Rightarrow> string \<Rightarrow> error + token list" where
  "scan os source = (case Lexer os source of Inl e \<Rightarrow> Inl e | Inr r \<Rightarrow> get_tokens r)"

text \<open>
  An operating system without files, where every source is a text; it prints no
  float, has memory for a string of \<open>2 ^ 32\<close> characters and has no default voice
  parameters.
\<close>

definition no_files :: env where
  "no_files =
     \<lparr>getcwd = ''/'', isfile = (\<lambda>p. False), isfile_fd = (\<lambda>n. False), readfile = (\<lambda>p. None),
      abspath = (\<lambda>p. p), path_join = (\<lambda>d p. d @ ''/'' @ p),
      float_repr = (\<lambda>x. []), memory = 2 ^ 32, VOICE_DEFAULTS = []\<rparr>"
subsection \<open>constants.py: phonemes and voices\<close>

definition PHONEMES_CONSONANTS :: "string list" where
  "PHONEMES_CONSONANTS =
     [''b'', ''ch'', ''d'', ''dh'', ''dx'', ''f'', ''g'', ''hx'', ''jh'', ''k'', ''l'', ''lx'',
      ''m'', ''n'', ''nx'', ''p'', ''r'', ''rx'', ''s'', ''sh'', ''t'', ''th'', ''tx'', ''v'',
      ''w'', ''yx'', ''z'', ''zh'']"

definition PHONEMES_VOWELS :: "string list" where
  "PHONEMES_VOWELS =
     [''aa'', ''ae'', ''ah'', ''ao'', ''aw'', ''ax'', ''ay'', ''eh'', ''el'', ''en'', ''er'',
      ''ey'', ''ih'', ''ir'', ''iy'', ''or'', ''ow'', ''oy'', ''rr'', ''uh'', ''ur'', ''uw'',
      ''yu'']"

definition PHONEMES_SYMBOLS :: "string list" where
  "PHONEMES_SYMBOLS = ['','', ''.'', ''_'', [CHR 0x27], ''`'', [CHR 0x22]]"

definition PHONEMES :: "string list" where
  "PHONEMES = PHONEMES_CONSONANTS @ PHONEMES_VOWELS @ PHONEMES_SYMBOLS"

definition PHONEMES_NOLENGTH :: "string list" where
  "PHONEMES_NOLENGTH = ['','', ''.'', [CHR 0x27], ''`'', [CHR 0x22]]"

definition PHONEMES_NOPITCH :: "string list" where
  "PHONEMES_NOPITCH = PHONEMES_CONSONANTS @ PHONEMES_SYMBOLS"

definition VOICE_DEFAULT_NAMES :: "string list" where
  "VOICE_DEFAULT_NAMES =
     [''Betty'', ''Dennis'', ''Frank'', ''Harry'', ''Kit'', ''Paul'', ''Rita'', ''Ursula'',
      ''Wendy'']"

definition VOICE_MINMAX :: "(string \<times> int \<times> int) list" where
  "VOICE_MINMAX =
     [(''sx'', 0, 1), (''hs'', 65, 145), (''f4'', 2000, 4650), (''f5'', 2500, 4950),
      (''b4'', 100, 2048), (''b5'', 100, 2048),
      (''br'', 0, 72), (''lx'', 0, 100), (''sm'', 0, 100), (''ri'', 0, 100),
      (''nf'', 0, 100), (''la'', 0, 100),
      (''bf'', 0, 40), (''hr'', 2, 100), (''sr'', 1, 100), (''as'', 0, 100),
      (''qu'', 0, 100), (''ap'', 50, 350), (''pr'', 0, 250),
      (''lo'', 0, 86), (''gv'', 0, 86), (''gh'', 0, 86), (''gf'', 0, 86),
      (''g1'', 0, 86), (''g2'', 0, 86), (''g3'', 0, 86), (''g4'', 0, 86)]"

definition VOICE_PARAMETERS :: "string list" where
  "VOICE_PARAMETERS = map fst VOICE_MINMAX"

subsection \<open>node.py\<close>

text \<open>
  The nodes as the parser builds them. A voice's parameters are a \<^verbatim>\<open>dict\<close>: a list of
  pairs in insertion order, with one pair for each key.
\<close>

datatype node =
    CommandNode position string "param list" "node list"
  | EofNode position
  | PhonemeNode position string num int
  | VoiceNode position string "(string \<times> int) list"

fun dict_set :: "('k \<times> 'v) list \<Rightarrow> 'k \<Rightarrow> 'v \<Rightarrow> ('k \<times> 'v) list" where
  \<comment> \<open>\<^verbatim>\<open>d[k] = v\<close>: a present key keeps its place\<close>
  "dict_set [] k v = [(k, v)]"
| "dict_set ((k', v') # d) k v = (if k' = k then (k, v) # d else (k', v') # dict_set d k v)"

function digits_of :: "int \<Rightarrow> string" where
  "digits_of n =
     (if n < 10 then [char_of (48 + n)]
      else digits_of (n div 10) @ [char_of (48 + n mod 10)])"
  by pat_completeness auto
termination
  by (relation "measure nat") auto

declare digits_of.simps [simp del]

definition py_str_int :: "int \<Rightarrow> string" where
  "py_str_int i = (if i < 0 then ''-'' @ digits_of (- i) else digits_of i)"

fun py_str_param :: "env \<Rightarrow> param \<Rightarrow> string" where
  "py_str_param os (PInt i) = py_str_int i"
| "py_str_param os (PFloat x) = float_repr os x"
| "py_str_param os (PStr s) = s"

fun py_str_num :: "env \<Rightarrow> num \<Rightarrow> string" where
  "py_str_num os (IntV i) = py_str_int i"
| "py_str_num os (FloatV x) = float_repr os x"

fun float_gt0 :: "pyfloat \<Rightarrow> bool" where
  "float_gt0 (Fin m e) = (0 < m)"
| "float_gt0 PInf = True"
| "float_gt0 x = False"

fun num_gt0 :: "num \<Rightarrow> bool" where
  "num_gt0 (IntV i) = (0 < i)"
| "num_gt0 (FloatV x) = float_gt0 x"

text \<open>
  \<^verbatim>\<open>self.pitch + self.length > 0\<close>. Adding an int to a float converts the int, which
  raises \<^verbatim>\<open>OverflowError\<close> when it is too large.
\<close>

fun sum_gt0 :: "int \<Rightarrow> num \<Rightarrow> error + bool" where
  "sum_gt0 pitch (IntV l) = Inr (0 < pitch + l)"
| "sum_gt0 pitch (FloatV x) =
     (if float_is_inf (float_of_int pitch) then Inl PyOverflowError
      else Inr (float_sum_gt0 (float_of_int pitch) x))"

text \<open>\<^verbatim>\<open>__repr__\<close> of the four node classes.\<close>

fun concat_reprs :: "(error + string) list \<Rightarrow> error + string" where
  \<comment> \<open>\<^verbatim>\<open>for c in context: build += f" {str(c)}"\<close>\<close>
  "concat_reprs [] = Inr []"
| "concat_reprs (Inl e # rs) = Inl e"
| "concat_reprs (Inr s # rs) =
     (case concat_reprs rs of Inl e \<Rightarrow> Inl e | Inr t \<Rightarrow> Inr ('' '' @ s @ t))"

fun intersperse :: "string \<Rightarrow> string list \<Rightarrow> string" where
  \<comment> \<open>\<^verbatim>\<open>sep.join(xs)\<close>\<close>
  "intersperse sep [] = []"
| "intersperse sep [x] = x"
| "intersperse sep (x # y # xs) = x @ sep @ intersperse sep (y # xs)"

fun node_repr :: "env \<Rightarrow> node \<Rightarrow> error + string" where
  "node_repr os (CommandNode p command parameters ctx) =
     (let build = ''[:'' @ command @ concat (map (\<lambda>q. '' '' @ py_str_param os q) parameters) @ '']''
      in if 0 < length ctx then
           (case concat_reprs (map (node_repr os) ctx) of
              Inl e \<Rightarrow> Inl e
            | Inr s \<Rightarrow> Inr (build @ '' {'' @ s @ '' }''))
         else Inr build)"
| "node_repr os (EofNode p) = Inr ''<EOF>''"
| "node_repr os (PhonemeNode p phoneme len pitch) =
     (case sum_gt0 pitch len of
        Inl e \<Rightarrow> Inl e
      | Inr b \<Rightarrow>
          Inr (''['' @ phoneme @
               (if b then ''<'' @ (if num_gt0 len then py_str_num os len else [])
                           @ (if 0 < pitch then '','' @ py_str_int pitch else []) @ ''>''
                else []) @ '']''))"
| "node_repr os (VoiceNode p name parameters) =
     Inr (''[:voice '' @ name @ ''] {'' @
          intersperse '', '' (map (\<lambda>(k, v). k @ '': '' @ py_str_int v) parameters) @ ''}'')"

subsection \<open>parser.py\<close>

text \<open>
  The parser holds the token list and an index. \<open>toks\<close> is the list from the index on
  (\<^verbatim>\<open>tokens[index:]\<close>) and \<open>last_token\<close> is \<^verbatim>\<open>tokens[-1]\<close>, which \<^verbatim>\<open>advance\<close> makes the
  current token once the index has left the list.
\<close>

record parser =
  toks :: "token list"
  last_token :: token

definition Parser :: "token list \<Rightarrow> error + parser" where
  "Parser tokens =
     (case tokens of
        [] \<Rightarrow> Inl PyIndexError
      | t # ts \<Rightarrow> Inr \<lparr>toks = tokens, last_token = last tokens\<rparr>)"

definition cur :: "parser \<Rightarrow> token" where
  \<comment> \<open>\<^verbatim>\<open>self.token\<close>\<close>
  "cur p = (case toks p of [] \<Rightarrow> last_token p | t # ts \<Rightarrow> t)"

definition ttype :: "parser \<Rightarrow> TokenType" where
  "ttype p = token_type (cur p)"

definition Parser_advance :: "parser \<Rightarrow> parser" where
  "Parser_advance p = p\<lparr>toks := tl (toks p)\<rparr>"

lemma toks_Parser_advance [simp]: "toks (Parser_advance p) = tl (toks p)"
  by (simp add: Parser_advance_def)

lemma cur_Parser_advance_stuck: "toks p = [] \<Longrightarrow> cur (Parser_advance p) = cur p"
  by (simp add: cur_def Parser_advance_def)

text \<open>
  Tokens come from the lexer, whose string and special-character tokens carry a
  \<^verbatim>\<open>str\<close> and whose number tokens carry a number. Where the parser uses a token's
  value as a string and the value is none, the model raises \<open>PyTypeError\<close>.
\<close>

definition parse_phoneme :: "parser \<Rightarrow> error + (node \<times> parser)" where
  "parse_phoneme p0 =
     (case token_value (cur p0) of
        VStr name \<Rightarrow>
          (let p = token_pos (cur p0);
               p1 = Parser_advance p0 in
           case (if ttype p1 = T_LCHEVRON then
                   (let p2 = Parser_advance p1;
                        (len, p3) =
                          (if ttype p2 = T_FLOAT \<or> ttype p2 = T_INT
                           then (token_value (cur p2), Parser_advance p2)
                           else (VInt 0, p2));
                        (pitch, p4) =
                          (if ttype p3 = T_COMMA then
                             (let p3' = Parser_advance p3 in
                              if ttype p3' = T_INT
                              then (token_value (cur p3'), Parser_advance p3')
                              else (VInt 0, p3'))
                           else (VInt 0, p3))
                    in if ttype p4 \<noteq> T_RCHEVRON then Inl (ParserException p ''SyntaxError'')
                       else Inr (len, pitch, Parser_advance p4))
                 else Inr (VInt 0, VInt 0, p1)) of
             Inl e \<Rightarrow> Inl e
           | Inr (len, pitch, p5) \<Rightarrow>
               (case (len, pitch) of
                  (VInt l, VInt pi) \<Rightarrow>
                    Inr (PhonemeNode p name
                           (if name \<in> set PHONEMES_NOLENGTH then IntV 0 else IntV l)
                           (if name \<in> set PHONEMES_NOPITCH then 0 else pi), p5)
                | (VFloat l, VInt pi) \<Rightarrow>
                    Inr (PhonemeNode p name
                           (if name \<in> set PHONEMES_NOLENGTH then IntV 0 else FloatV l)
                           (if name \<in> set PHONEMES_NOPITCH then 0 else pi), p5)
                | _ \<Rightarrow> Inl PyTypeError))
      | _ \<Rightarrow> Inl PyTypeError)"

text \<open>The loop of \<^verbatim>\<open>parse_voice\<close> over the voice's parameters.\<close>

function parse_voice_loop :: "position \<Rightarrow> parser \<Rightarrow> (string \<times> int) list \<Rightarrow> error + ((string \<times> int) list \<times> parser)" where
  "parse_voice_loop pos0 p parameters =
     (if ttype p \<noteq> T_RBRACE then
        (if ttype p \<noteq> T_STRING then Inl (ParserException pos0 ''SyntaxError'')
         else
           (let parameter = token_value (cur p);
                p1 = Parser_advance p in
            if ttype p1 \<noteq> T_INT then Inl (ParserException pos0 ''SyntaxError'')
            else
              (case (parameter, token_value (cur p1)) of
                 (VStr k, VInt v) \<Rightarrow>
                   (let p2 = Parser_advance p1;
                        p3 = (if ttype p2 = T_COMMA then Parser_advance p2 else p2)
                    in parse_voice_loop pos0 p3 (dict_set parameters k v))
               | _ \<Rightarrow> Inl PyTypeError)))
      else Inr (parameters, p))"
  by pat_completeness auto
termination
proof (relation "measure (\<lambda>(pos0, p, d). length (toks p))", goal_cases)
  case 1
  show ?case by simp
next
  case (2 pos0 p parameters parameter p1 x y k v p2 p3)
  have "toks p \<noteq> []"
  proof
    assume "toks p = []"
    then have "cur p1 = cur p" using 2 by (simp add: cur_Parser_advance_stuck)
    with 2 show False by (simp add: ttype_def)
  qed
  with 2 show ?case by (cases "toks p") auto
qed

declare parse_voice_loop.simps [simp del]

definition parse_voice :: "parser \<Rightarrow> position \<Rightarrow> error + (node \<times> parser)" where
  "parse_voice p pos0 =
     (if ttype p \<noteq> T_STRING then Inl (ParserException pos0 ''SyntaxError'')
      else
        (case token_value (cur p) of
           VStr name \<Rightarrow>
             (let p1 = Parser_advance p in
              if ttype p1 \<noteq> T_RBRACKET then Inl (ParserException pos0 ''SyntaxError'')
              else
                (let p2 = Parser_advance p1 in
                 if ttype p2 \<noteq> T_LBRACE then Inr (VoiceNode pos0 name [], p2)
                 else
                   (case parse_voice_loop pos0 (Parser_advance p2) [] of
                      Inl e \<Rightarrow> Inl e
                    | Inr (parameters, p3) \<Rightarrow>
                        Inr (VoiceNode pos0 name parameters, Parser_advance p3))))
         | _ \<Rightarrow> Inl PyTypeError))"

text \<open>
  The loop of \<^verbatim>\<open>parse_command\<close> over the command's parameters. A loop that meets the
  last token of a list again and again (a list that does not end with the
  end-of-input token) appends to its list for ever; the model ends it with
  \<open>PyMemoryError\<close>.
\<close>

fun param_of_value :: "tvalue \<Rightarrow> error + param" where
  "param_of_value (VInt i) = Inr (PInt i)"
| "param_of_value (VFloat x) = Inr (PFloat x)"
| "param_of_value (VStr s) = Inr (PStr s)"
| "param_of_value VNone = Inl PyTypeError"

function parse_parameters :: "position \<Rightarrow> parser \<Rightarrow> param list \<Rightarrow> error + (param list \<times> parser)" where
  "parse_parameters pos0 p parameters =
     (if ttype p \<noteq> T_RBRACKET then
        (if ttype p = T_EOF then Inl (ParserException pos0 ''SyntaxError'')
         else if ttype p \<noteq> T_FLOAT \<and> ttype p \<noteq> T_INT \<and> ttype p \<noteq> T_STRING
           then Inl (ParserException pos0 ''SyntaxError'')
         else
           (case param_of_value (token_value (cur p)) of
              Inl e \<Rightarrow> Inl e
            | Inr q \<Rightarrow>
                if toks p = [] then Inl PyMemoryError
                else parse_parameters pos0 (Parser_advance p) (parameters @ [q])))
      else Inr (parameters, p))"
  by pat_completeness auto
termination
  by (relation "measure (\<lambda>(pos0, p, d). length (toks p))") auto

declare parse_parameters.simps [simp del]
lemma parse_parameters_props:
  "parse_parameters pos0 p ps = Inr (ps', p') \<Longrightarrow>
     length (toks p') \<le> length (toks p) \<and> ttype p' = T_RBRACKET \<and> last_token p' = last_token p"
proof (induction pos0 p ps rule: parse_parameters.induct)
  case (1 pos0 p parameters)
  show ?case
  proof (cases "ttype p \<noteq> T_RBRACKET")
    case False
    with "1.prems" show ?thesis by (simp add: parse_parameters.simps [of pos0 p])
  next
    case True
    with "1.prems" obtain q where
      c: "ttype p \<noteq> T_EOF" "\<not> (ttype p \<noteq> T_FLOAT \<and> ttype p \<noteq> T_INT \<and> ttype p \<noteq> T_STRING)"
         "param_of_value (token_value (cur p)) = Inr q" "toks p \<noteq> []"
         "parse_parameters pos0 (Parser_advance p) (parameters @ [q]) = Inr (ps', p')"
      by (auto simp: parse_parameters.simps [of pos0 p] split: if_splits sum.splits)
    from "1.IH" [OF True c(1,2,3,4,5)]
    show ?thesis by (auto simp: Parser_advance_def)
  qed
qed

text \<open>
  \<^verbatim>\<open>parse_command\<close>, and the loop over its context, which calls \<^verbatim>\<open>parse_command\<close>
  again. A pass of the loop that consumes no token only happens on the last token of
  a list without end-of-input token, where the loop goes on for ever (\<open>PyMemoryError\<close>).
\<close>

function parse_command :: "parser \<Rightarrow> error + (node \<times> parser)"
  and parse_context :: "position \<Rightarrow> parser \<Rightarrow> node list \<Rightarrow> error + (node list \<times> parser)" where
  "parse_command p0 =
     (let pos0 = token_pos (cur p0);
          p1 = Parser_advance p0 in
      if ttype p1 \<noteq> T_STRING then Inl (ParserException pos0 ''SyntaxError'')
      else
        (case token_value (cur p1) of
           VStr v \<Rightarrow>
             (if v = [] then Inl PyIndexError
              else if hd v \<noteq> CHR '':'' then Inl (ParserException pos0 ''SyntaxError'')
              else if v = '':'' then Inl (ParserException pos0 ''SyntaxError'')
              else if v = '':voice'' then parse_voice (Parser_advance p1) pos0
              else
                (case parse_parameters pos0 (Parser_advance p1) [] of
                   Inl e \<Rightarrow> Inl e
                 | Inr (parameters, p3) \<Rightarrow>
                     (let p4 = Parser_advance p3 in
                      if ttype p4 \<noteq> T_LBRACE then Inr (CommandNode pos0 (tl v) parameters [], p4)
                      else
                        (case parse_context pos0 (Parser_advance p4) [] of
                           Inl e \<Rightarrow> Inl e
                         | Inr (ctx, p6) \<Rightarrow>
                             Inr (CommandNode pos0 (tl v) parameters ctx, Parser_advance p6)))))
         | _ \<Rightarrow> Inl PyTypeError))"
| "parse_context pos0 p ctx =
     (if ttype p \<noteq> T_RBRACE then
        (if ttype p = T_LBRACKET then
           (case parse_command p of
              Inl e \<Rightarrow> Inl e
            | Inr (n, p') \<Rightarrow>
                if length (toks p') < length (toks p) then parse_context pos0 p' (ctx @ [n])
                else Inl PyMemoryError)
         else if ttype p = T_COMMA \<or> ttype p = T_STRING then
           (case parse_phoneme p of
              Inl e \<Rightarrow> Inl e
            | Inr (n, p') \<Rightarrow>
                if length (toks p') < length (toks p) then parse_context pos0 p' (ctx @ [n])
                else Inl PyMemoryError)
         else Inl (ParserException pos0 ''TypeError''))
      else Inr (ctx, p))"
  by pat_completeness auto
termination
proof (relation "measure (\<lambda>x. case x of
          Inl p \<Rightarrow> 2 * length (toks p)
        | Inr (pos0, p, ctx) \<Rightarrow> 2 * length (toks p) + 1)", goal_cases)
  case 1
  show ?case by simp
next
  case (2 p0 pos0 p1 v x parameters p3 p4)
  from 2 have pp: "parse_parameters pos0 (Parser_advance p1) [] = Inr (parameters, p3)"
    by simp
  note props = parse_parameters_props [OF pp]
  have ne: "toks p0 \<noteq> []"
  proof
    assume e: "toks p0 = []"
    then have e1: "toks p1 = []" using 2 by simp
    with props have e3: "toks p3 = []" by simp
    from props 2 have "last_token p3 = last_token p0" by (simp add: Parser_advance_def)
    with e e1 e3 2 have "cur p3 = cur p1" by (simp add: cur_def Parser_advance_def)
    with props 2 show False by (simp add: ttype_def)
  qed
  from props 2 have "length (toks (Parser_advance p4)) \<le> length (toks p1)"
    by (auto simp: Parser_advance_def)
  moreover from ne 2 have "length (toks p1) < length (toks p0)"
    by (cases "toks p0") auto
  ultimately show ?case by simp
next
  case 3
  then show ?case by simp
next
  case 4
  then show ?case by simp
next
  case 5
  then show ?case by simp
qed

declare parse_command.simps [simp del] parse_context.simps [simp del]

text \<open>\<^verbatim>\<open>get_nodes\<close> and its loop.\<close>

function get_nodes_loop :: "parser \<Rightarrow> node list \<Rightarrow> error + node list" where
  "get_nodes_loop p nodes =
     (if ttype p \<noteq> T_EOF then
        (if ttype p = T_LBRACKET then
           (case parse_command p of
              Inl e \<Rightarrow> Inl e
            | Inr (n, p') \<Rightarrow>
                if length (toks p') < length (toks p) then get_nodes_loop p' (nodes @ [n])
                else Inl PyMemoryError)
         else if ttype p = T_COMMA \<or> ttype p = T_STRING then
           (case parse_phoneme p of
              Inl e \<Rightarrow> Inl e
            | Inr (n, p') \<Rightarrow>
                if length (toks p') < length (toks p) then get_nodes_loop p' (nodes @ [n])
                else Inl PyMemoryError)
         else Inl (ParserException (token_pos (cur p)) ''TypeError''))
      else Inr (nodes @ [EofNode (token_pos (cur p))]))"
  by pat_completeness auto
termination
  by (relation "measure (\<lambda>(p, ns). length (toks p))") auto

declare get_nodes_loop.simps [simp del]

definition get_nodes :: "parser \<Rightarrow> error + node list" where
  "get_nodes p = get_nodes_loop p []"

text \<open>\<^verbatim>\<open>Parser(Lexer(source).get_tokens()).get_nodes()\<close>: from a source to its nodes.\<close>

definition parse :: "env \<Rightarrow> string \<Rightarrow> error + node list" where
  "parse os source =
     (case scan os source of
        Inl e \<Rightarrow> Inl e
      | Inr tokens \<Rightarrow> (case Parser tokens of Inl e \<Rightarrow> Inl e | Inr p \<Rightarrow> get_nodes p))"
subsection \<open>utils/validation.py\<close>

text \<open>
  A validator gets the fields of the command node it reads: the position, the
  parameters and the context. It returns \<open>Inr ()\<close> or the exception it raises.
\<close>

type_synonym validator = "position \<Rightarrow> param list \<Rightarrow> node list \<Rightarrow> error + unit"

datatype pytype = py_int | py_str

fun isinstance :: "param \<Rightarrow> pytype \<Rightarrow> bool" where
  "isinstance (PInt i) t = (t = py_int)"
| "isinstance (PFloat x) t = False"
| "isinstance (PStr s) t = (t = py_str)"

definition and_then :: "error + unit \<Rightarrow> error + unit \<Rightarrow> error + unit" where
  \<comment> \<open>one statement after another: the first exception ends the function\<close>
  "and_then a b = (case a of Inl e \<Rightarrow> Inl e | Inr u \<Rightarrow> b)"

definition validate_context_length :: validator where
  "validate_context_length p parameters ctx =
     (if length ctx = 0 then Inl (ValidationException p ''SyntaxError'') else Inr ())"

fun is_phoneme_node :: "node \<Rightarrow> bool" where
  "is_phoneme_node (PhonemeNode p n l pi) = True"
| "is_phoneme_node x = False"

definition validate_context_type_Node :: validator where
  \<comment> \<open>\<^verbatim>\<open>_validate_context_type(node, (Node))\<close>: every node is a \<^verbatim>\<open>Node\<close>\<close>
  "validate_context_type_Node p parameters ctx = Inr ()"

definition validate_context_type_PhonemeNode :: validator where
  "validate_context_type_PhonemeNode p parameters ctx =
     (if list_all is_phoneme_node ctx then Inr ()
      else Inl (ValidationException p ''CommandContextTypeException''))"

definition validate_parameter_count :: "position \<Rightarrow> param list \<Rightarrow> nat \<Rightarrow> error + unit" where
  "validate_parameter_count p parameters n =
     (if length parameters \<noteq> n then Inl (ValidationException p ''CommandParameterCountException'')
      else Inr ())"

definition validate_parameter_types :: "position \<Rightarrow> param list \<Rightarrow> pytype list \<Rightarrow> error + unit" where
  "validate_parameter_types p parameters types =
     (if length parameters \<noteq> length types then Inl PyAssertionError
      else if list_all2 isinstance parameters types then Inr ()
      else Inl (ValidationException p ''CommandParameterTypeException''))"

definition validate_parameter_keywords :: "position \<Rightarrow> string \<Rightarrow> string list \<Rightarrow> error + unit" where
  "validate_parameter_keywords p parameter keywords =
     (if parameter \<notin> set keywords then Inl (ValidationException p ''CommandParameterKeywordException'')
      else Inr ())"

definition ascii_letters :: string where
  "ascii_letters = ''abcdefghijklmnopqrstuvwxyzABCDEFGHIJKLMNOPQRSTUVWXYZ''"

definition matches_RE_VARIABLE :: "string \<Rightarrow> bool" where
  \<comment> \<open>\<^verbatim>\<open>re.match("^(([a-zA-Z])|([_a-zA-Z][a-zA-Z0-9_]+))$", s)\<close>; \<^verbatim>\<open>$\<close> also matches before a final newline\<close>
  "matches_RE_VARIABLE s0 =
     (let s = (if s0 \<noteq> [] \<and> last s0 = CHR 0x0A then butlast s0 else s0) in
      case s of
        [] \<Rightarrow> False
      | [c] \<Rightarrow> c \<in> set ascii_letters
      | c # cs \<Rightarrow> c \<in> set (CHR ''_'' # ascii_letters) \<and>
                  list_all (\<lambda>d. d \<in> set (ascii_letters @ digits @ ''_'')) cs)"

definition validate_parameter_is_variable :: "position \<Rightarrow> string \<Rightarrow> error + unit" where
  "validate_parameter_is_variable p parameter =
     (if \<not> matches_RE_VARIABLE parameter
      then Inl (ValidationException p ''CommandParameterVariableException'')
      else Inr ())"

definition validate_parameter_value_range :: "position \<Rightarrow> int \<Rightarrow> int \<Rightarrow> int \<Rightarrow> error + unit" where
  "validate_parameter_value_range p parameter lo hi =
     (if parameter < lo \<or> hi < parameter
      then Inl (ValidationException p ''CommandParameterValueException'')
      else Inr ())"

definition autovalidate :: validator where
  "autovalidate p parameters ctx = Inr ()"

definition validate_one_int :: validator where
  \<comment> \<open>\<^verbatim>\<open>_validate_comma_command\<close>, \<^verbatim>\<open>_validate_period_pause_command\<close>, \<^verbatim>\<open>_validate_pitch_command\<close>\<close>
  "validate_one_int p parameters ctx =
     and_then (validate_parameter_count p parameters 1)
       (validate_parameter_types p parameters [py_int])"

definition validate_define_voice_command :: validator where
  "validate_define_voice_command p parameters ctx =
     and_then (validate_parameter_count p parameters 2)
    (and_then (validate_parameter_types p parameters [py_str, py_int])
       (case parameters of
          [PStr k, PInt v] \<Rightarrow>
            and_then (validate_parameter_keywords p k VOICE_PARAMETERS)
              (case map_of VOICE_MINMAX k of
                 None \<Rightarrow> Inl PyKeyError
               | Some (lo, hi) \<Rightarrow> validate_parameter_value_range p v lo hi)
        | _ \<Rightarrow> Inl Impossible))"

definition validate_one_keyword :: "string list \<Rightarrow> validator" where
  \<comment> \<open>the validators of \<^verbatim>\<open>error\<close>, \<^verbatim>\<open>pronounce\<close>, \<^verbatim>\<open>punct\<close>, \<^verbatim>\<open>say\<close> and \<^verbatim>\<open>skip\<close>\<close>
  "validate_one_keyword keywords p parameters ctx =
     and_then (validate_parameter_count p parameters 1)
    (and_then (validate_parameter_types p parameters [py_str])
       (case parameters of
          [PStr k] \<Rightarrow> validate_parameter_keywords p k keywords
        | _ \<Rightarrow> Inl Impossible))"

definition validate_two_keywords :: "string list \<Rightarrow> string list \<Rightarrow> validator" where
  \<comment> \<open>\<^verbatim>\<open>_validate_processing_mode_command\<close> and \<^verbatim>\<open>_validate_phoneme_command\<close>\<close>
  "validate_two_keywords options modes p parameters ctx =
     and_then (validate_parameter_count p parameters 2)
    (and_then (validate_parameter_types p parameters [py_str, py_str])
       (case parameters of
          [PStr k, PStr m] \<Rightarrow>
            and_then (validate_parameter_keywords p k options)
              (validate_parameter_keywords p m modes)
        | _ \<Rightarrow> Inl Impossible))"

definition validate_name_command :: validator where
  "validate_name_command p parameters ctx =
     and_then (validate_parameter_count p parameters 1)
    (and_then (validate_parameter_types p parameters [py_str])
       (case parameters of
          [PStr k] \<Rightarrow> validate_parameter_is_variable p k
        | _ \<Rightarrow> Inl Impossible))"

definition validate_one_str :: validator where
  \<comment> \<open>\<^verbatim>\<open>_validate_play_command\<close> and \<^verbatim>\<open>_validate_import_command\<close>\<close>
  "validate_one_str p parameters ctx =
     and_then (validate_parameter_count p parameters 1)
       (validate_parameter_types p parameters [py_str])"

definition validate_rate_command :: validator where
  "validate_rate_command p parameters ctx =
     and_then (validate_parameter_count p parameters 1)
    (and_then (validate_parameter_types p parameters [py_int])
       (case parameters of
          [PInt v] \<Rightarrow> validate_parameter_value_range p v 75 600
        | _ \<Rightarrow> Inl Impossible))"

definition validate_tone_command :: validator where
  "validate_tone_command p parameters ctx =
     and_then (validate_parameter_count p parameters 2)
       (validate_parameter_types p parameters [py_int, py_int])"

definition validate_volume_command :: validator where
  "validate_volume_command p parameters ctx =
     (if length parameters = 2 then
        and_then (validate_parameter_types p parameters [py_str, py_int])
          (case parameters of
             [PStr k, PInt v] \<Rightarrow>
               and_then (validate_parameter_keywords p k
                   [''up'', ''lup'', ''rup'', ''down'', ''ldown'', ''rdown'', ''set'', ''lset'', ''rset''])
                 (validate_parameter_value_range p v 0 100)
           | _ \<Rightarrow> Inl Impossible)
      else if length parameters = 3 then
        and_then (validate_parameter_types p parameters [py_str, py_int, py_int])
          (case parameters of
             [PStr k, PInt v, PInt w] \<Rightarrow>
               and_then (validate_parameter_keywords p k [''sset''])
              (and_then (validate_parameter_value_range p v 0 100)
                 (validate_parameter_value_range p w 0 100))
           | _ \<Rightarrow> Inl Impossible)
      else validate_parameter_count p parameters 2)"

definition validate_bpm_command :: validator where
  "validate_bpm_command p parameters ctx =
     and_then (validate_parameter_count p parameters 1)
    (and_then (validate_parameter_types p parameters [py_int])
       (case parameters of
          [PInt v] \<Rightarrow> validate_parameter_value_range p v 0 60000
        | _ \<Rightarrow> Inl Impossible))"

definition validate_loop_command :: validator where
  "validate_loop_command p parameters ctx =
     and_then (validate_parameter_count p parameters 1)
    (and_then (validate_parameter_types p parameters [py_int])
       (validate_context_type_Node p parameters ctx))"

definition validate_phrase_command :: validator where
  "validate_phrase_command p parameters ctx =
     and_then (validate_parameter_count p parameters 1)
    (and_then (validate_parameter_types p parameters [py_str])
       (case parameters of
          [PStr k] \<Rightarrow>
            and_then (validate_parameter_is_variable p k)
           (and_then (validate_context_length p parameters ctx)
              (validate_context_type_Node p parameters ctx))
        | _ \<Rightarrow> Inl Impossible))"

text \<open>
  The classes of a sound's phonemes, as the string of \<^verbatim>\<open>c\<close> and \<^verbatim>\<open>v\<close> that
  \<^verbatim>\<open>_validate_sound_command\<close> builds, and \<^verbatim>\<open>re.match("^c*v+c*$", phonemes)\<close>.
\<close>

fun sound_classes :: "position \<Rightarrow> node list \<Rightarrow> error + string" where
  "sound_classes p [] = Inr []"
| "sound_classes p (PhonemeNode q name l pi # ns) =
     (if name \<in> set PHONEMES_CONSONANTS then
        (case sound_classes p ns of Inl e \<Rightarrow> Inl e | Inr s \<Rightarrow> Inr (CHR ''c'' # s))
      else if name \<in> set PHONEMES_VOWELS then
        (case sound_classes p ns of Inl e \<Rightarrow> Inl e | Inr s \<Rightarrow> Inr (CHR ''v'' # s))
      else Inl (ValidationException p ''SoundPhonemeTypeException''))"
| "sound_classes p (n # ns) = Inl PyAttributeError"

definition matches_RE_SOUND :: "string \<Rightarrow> bool" where
  "matches_RE_SOUND s =
     (let s1 = dropWhile (\<lambda>c. c = CHR ''c'') s;
          s2 = dropWhile (\<lambda>c. c = CHR ''v'') s1;
          s3 = dropWhile (\<lambda>c. c = CHR ''c'') s2
      in s1 \<noteq> s2 \<and> (s3 = [] \<or> s3 = [CHR 0x0A]))"

definition validate_sound_command :: validator where
  "validate_sound_command p parameters ctx =
     and_then (validate_parameter_count p parameters 1)
    (and_then (validate_parameter_types p parameters [py_str])
       (case parameters of
          [PStr k] \<Rightarrow>
            and_then (validate_parameter_is_variable p k)
           (and_then (validate_context_length p parameters ctx)
           (and_then (validate_context_type_PhonemeNode p parameters ctx)
              (case sound_classes p ctx of
                 Inl e \<Rightarrow> Inl e
               | Inr phonemes \<Rightarrow>
                   if \<not> matches_RE_SOUND phonemes
                   then Inl (ValidationException p ''SyntaxError'')
                   else Inr ())))
        | _ \<Rightarrow> Inl Impossible))"

fun validate_voice_parameters :: "position \<Rightarrow> (string \<times> int) list \<Rightarrow> error + unit" where
  "validate_voice_parameters p [] = Inr ()"
| "validate_voice_parameters p ((k, v) # d) =
     (if k \<notin> set VOICE_PARAMETERS then Inl (ValidationException p ''VoiceParameterNameException'')
      else
        (case map_of VOICE_MINMAX k of
           None \<Rightarrow> Inl PyKeyError
         | Some (lo, hi) \<Rightarrow>
             if v < lo \<or> hi < v then Inl (ValidationException p ''VoiceParameterValueException'')
             else validate_voice_parameters p d))"

definition validate_voice_command :: "position \<Rightarrow> string \<Rightarrow> (string \<times> int) list \<Rightarrow> error + unit" where
  "validate_voice_command p name parameters =
     and_then (validate_parameter_is_variable p name)
       (validate_voice_parameters p parameters)"

definition VALIDATION_MAP :: "(string \<times> validator) list" where
  \<comment> \<open>\<^verbatim>\<open>_VALIDATION_MAP\<close>, without its entry for \<^verbatim>\<open>voice\<close>, which reads a voice node\<close>
  "VALIDATION_MAP =
     [(''comma'', validate_one_int), (''cp'', validate_one_int),
      (''dv'', validate_define_voice_command),
      (''error'', validate_one_keyword [''ignore'', ''speak'', ''tone'']),
      (''mode'', validate_two_keywords
          [''math'', ''europe'', ''spell'', ''name'', ''citation'', ''latin'', ''table'']
          [''on'', ''off'', ''set'']),
      (''name'', validate_name_command),
      (''nb'', autovalidate), (''nd'', autovalidate), (''nf'', autovalidate),
      (''nh'', autovalidate), (''nk'', autovalidate), (''np'', autovalidate),
      (''nr'', autovalidate), (''nu'', autovalidate), (''nw'', autovalidate),
      (''period'', validate_one_int), (''pp'', validate_one_int),
      (''phoneme'', validate_two_keywords [''arpabet''] [''on'', ''off'']),
      (''pitch'', validate_one_int),
      (''play'', validate_one_str),
      (''pronounce'', validate_one_keyword
          [''alternate'', ''primary'', ''name'', ''noun'', ''adjective'', ''verb'']),
      (''punct'', validate_one_keyword [''none'', ''some'', ''all'', ''pass'']),
      (''rate'', validate_rate_command),
      (''say'', validate_one_keyword [''clause'', ''word'', ''letter'', ''filtered'', ''line'']),
      (''skip'', validate_one_keyword [''punct'', ''rule'', ''all'', ''off'', ''cpg'', ''none'']),
      (''tone'', validate_tone_command),
      (''volume'', validate_volume_command),
      (''bpm'', validate_bpm_command),
      (''import'', validate_one_str),
      (''loop'', validate_loop_command),
      (''phrase'', validate_phrase_command),
      (''sound'', validate_sound_command)]"

fun validate :: "node \<Rightarrow> error + unit" where
  "validate (CommandNode p command parameters ctx) =
     (if command = ''voice'' then Inl PyAttributeError
      else
        (case map_of VALIDATION_MAP command of
           None \<Rightarrow> Inl (ValidationException p ''NameError'')
         | Some v \<Rightarrow> v p parameters ctx))"
| "validate (VoiceNode p name parameters) = validate_voice_command p name parameters"
| "validate n = Inl PyAttributeError"
subsection \<open>Node objects\<close>

text \<open>
  The processor assigns to fields of the nodes it is given: to a phoneme's \<^verbatim>\<open>length\<close>
  and \<^verbatim>\<open>pitch\<close> and to a command's \<^verbatim>\<open>parameters\<close>. A node may be reachable from the
  node list and from a registered phrase or sound at once, so the processor's nodes
  are objects: a node with an identity (\<open>oid\<close>), whose assignable fields live in a
  store. The fields no code assigns to after parsing stay in the node.
  \<open>alloc\<close> makes the objects of the nodes the parser built, every node a new object;
  \<open>snapshot\<close> reads an object's present value.
\<close>

type_synonym oid = nat

datatype onode =
    CommandObj oid position string "onode list"
  | EofObj position
  | PhonemeObj oid position string
  | VoiceObj position string "(string \<times> int) list"

datatype cell = PhonemeCell num int | CommandCell "param list"

record store =
  cells :: "oid \<Rightarrow> cell option"
  next_oid :: oid

definition empty_store :: store where
  "empty_store = \<lparr>cells = (\<lambda>i. None), next_oid = 0\<rparr>"

definition new_cell :: "cell \<Rightarrow> store \<Rightarrow> oid \<times> store" where
  "new_cell c s = (next_oid s, s\<lparr>cells := (cells s)(next_oid s := Some c), next_oid := Suc (next_oid s)\<rparr>)"

definition set_cell :: "oid \<Rightarrow> cell \<Rightarrow> store \<Rightarrow> store" where
  "set_cell i c s = s\<lparr>cells := (cells s)(i := Some c)\<rparr>"

fun alloc :: "node \<Rightarrow> store \<Rightarrow> onode \<times> store"
  and alloc_list :: "node list \<Rightarrow> store \<Rightarrow> onode list \<times> store" where
  "alloc (CommandNode p command parameters ctx) s =
     (let (i, s1) = new_cell (CommandCell parameters) s;
          (objs, s2) = alloc_list ctx s1
      in (CommandObj i p command objs, s2))"
| "alloc (EofNode p) s = (EofObj p, s)"
| "alloc (PhonemeNode p phoneme len pitch) s =
     (let (i, s1) = new_cell (PhonemeCell len pitch) s in (PhonemeObj i p phoneme, s1))"
| "alloc (VoiceNode p name parameters) s = (VoiceObj p name parameters, s)"
| "alloc_list [] s = ([], s)"
| "alloc_list (n # ns) s =
     (let (obj, s1) = alloc n s;
          (objs, s2) = alloc_list ns s1
      in (obj # objs, s2))"

fun snapshot :: "store \<Rightarrow> onode \<Rightarrow> error + node"
  and snapshot_list :: "store \<Rightarrow> onode list \<Rightarrow> error + node list" where
  "snapshot s (CommandObj i p command objs) =
     (case cells s i of
        Some (CommandCell parameters) \<Rightarrow>
          (case snapshot_list s objs of
             Inl e \<Rightarrow> Inl e
           | Inr ctx \<Rightarrow> Inr (CommandNode p command parameters ctx))
      | _ \<Rightarrow> Inl Impossible)"
| "snapshot s (EofObj p) = Inr (EofNode p)"
| "snapshot s (PhonemeObj i p phoneme) =
     (case cells s i of
        Some (PhonemeCell len pitch) \<Rightarrow> Inr (PhonemeNode p phoneme len pitch)
      | _ \<Rightarrow> Inl Impossible)"
| "snapshot s (VoiceObj p name parameters) = Inr (VoiceNode p name parameters)"
| "snapshot_list s [] = Inr []"
| "snapshot_list s (obj # objs) =
     (case snapshot s obj of
        Inl e \<Rightarrow> Inl e
      | Inr n \<Rightarrow> (case snapshot_list s objs of Inl e \<Rightarrow> Inl e | Inr ns \<Rightarrow> Inr (n # ns)))"

definition obj_str :: "env \<Rightarrow> store \<Rightarrow> onode \<Rightarrow> error + string" where
  \<comment> \<open>\<^verbatim>\<open>str(node)\<close>\<close>
  "obj_str os s obj = (case snapshot s obj of Inl e \<Rightarrow> Inl e | Inr n \<Rightarrow> node_repr os n)"

fun obj_pos :: "onode \<Rightarrow> position" where
  "obj_pos (CommandObj i p command objs) = p"
| "obj_pos (EofObj p) = p"
| "obj_pos (PhonemeObj i p phoneme) = p"
| "obj_pos (VoiceObj p name parameters) = p"

subsection \<open>state.py\<close>

text \<open>
  The keys of the dictionaries of phrases and sounds are \<^verbatim>\<open>parameters[0]\<close> of the
  registering command: a string, or (in a command that was not validated) a number.
  Python's dictionaries hold an int and a float of the same value for one key.
\<close>

datatype key = KStr string | KNum int | KFloat pyfloat

fun key_of :: "param \<Rightarrow> key" where
  "key_of (PStr s) = KStr s"
| "key_of (PInt i) = KNum i"
| "key_of (PFloat (Fin m e)) = (if 0 \<le> e then KNum (m * 2 ^ nat e) else KFloat (Fin m e))"
| "key_of (PFloat NZero) = KNum 0"
| "key_of (PFloat x) = KFloat x"

record state =
  bpm_to_ms :: num
  include_dirs :: "string list"
  phrases :: "key \<Rightarrow> onode list option"
  sounds :: "key \<Rightarrow> onode list option"
  voices :: "string \<Rightarrow> (string \<times> int) list option"

definition State :: "env \<Rightarrow> string list \<Rightarrow> state" where
  \<comment> \<open>\<^verbatim>\<open>State.__init__\<close>, without the names of the files it writes; \<open>include_dirs\<close> is \<^verbatim>\<open>self.includes\<close>\<close>
  "State os incl =
     \<lparr>bpm_to_ms = FloatV (Fin 1 0), include_dirs = [getcwd os] @ incl,
      phrases = (\<lambda>k. None), sounds = (\<lambda>k. None), voices = (\<lambda>k. None)\<rparr>"

fun param_in :: "param \<Rightarrow> string list \<Rightarrow> bool" where
  \<comment> \<open>\<^verbatim>\<open>name in NAMES\<close> for a list of strings\<close>
  "param_in (PStr s) names = (s \<in> set names)"
| "param_in q names = False"

fun dict_update :: "('k \<times> 'v) list \<Rightarrow> ('k \<times> 'v) list \<Rightarrow> ('k \<times> 'v) list" where
  \<comment> \<open>\<^verbatim>\<open>for k in e: d[k] = e[k]\<close>\<close>
  "dict_update d [] = d"
| "dict_update d ((k, v) # e) = dict_update (dict_set d k v) e"

fun register :: "env \<Rightarrow> store \<Rightarrow> onode \<Rightarrow> state \<Rightarrow> error + state" where
  "register os s (CommandObj i p command objs) st =
     (case cells s i of
        Some (CommandCell parameters) \<Rightarrow>
          (if command = ''phrase'' then
             (case parameters of
                [] \<Rightarrow> Inl PyIndexError
              | name # ps \<Rightarrow>
                  if param_in name PHONEMES then Inl (StateException p ''RegistrationError'')
                  else if sounds st (key_of name) \<noteq> None
                    then Inl (StateException p ''RegistrationError'')
                  else Inr (st\<lparr>phrases := (phrases st)(key_of name := Some objs)\<rparr>))
           else if command = ''sound'' then
             (case parameters of
                [] \<Rightarrow> Inl PyIndexError
              | name # ps \<Rightarrow>
                  if param_in name PHONEMES then Inl (StateException p ''RegistrationError'')
                  else if phrases st (key_of name) \<noteq> None
                    then Inl (StateException p ''RegistrationError'')
                  else Inr (st\<lparr>sounds := (sounds st)(key_of name := Some objs)\<rparr>))
           else if command = ''voice'' then Inl PyAttributeError
           else Inl (StateException p ''RegistrationError''))
      | _ \<Rightarrow> Inl Impossible)"
| "register os s (VoiceObj p name parameters) st =
     (if name \<in> set VOICE_DEFAULT_NAMES then Inl (StateException p ''RegistrationError'')
      else Inr (st\<lparr>voices := (voices st)(name := Some (dict_update (VOICE_DEFAULTS os) parameters))\<rparr>))"
| "register os s obj st = Inl (StateException (obj_pos obj) ''RegistrationError'')"

fun set_bpm :: "param \<Rightarrow> state \<Rightarrow> error + state" where
  "set_bpm (PInt bpm) st =
     (if bpm = 0 then Inr (st\<lparr>bpm_to_ms := IntV 1\<rparr>)
      else Inr (st\<lparr>bpm_to_ms := FloatV (int_truediv 60000 bpm)\<rparr>))"
| "set_bpm (PFloat bpm) st =
     (if float_is_zero bpm then Inr (st\<lparr>bpm_to_ms := IntV 1\<rparr>)
      else Inr (st\<lparr>bpm_to_ms := FloatV (float_div (float_of_int 60000) bpm)\<rparr>))"
| "set_bpm (PStr bpm) st = Inl PyTypeError"
subsection \<open>processor.py\<close>

text \<open>
  What a processor works on: the store of the node objects, the compilation state
  and the text the writer has written. An imported file's processor works on the
  same three.
\<close>

record machine =
  heap :: store
  st :: state
  written :: string

fun num_mul :: "num \<Rightarrow> num \<Rightarrow> error + num" where
  "num_mul (IntV a) (IntV b) = Inr (IntV (a * b))"
| "num_mul (IntV a) (FloatV y) =
     (if float_is_inf (float_of_int a) then Inl PyOverflowError
      else Inr (FloatV (float_mul (float_of_int a) y)))"
| "num_mul (FloatV x) (IntV b) =
     (if float_is_inf (float_of_int b) then Inl PyOverflowError
      else Inr (FloatV (float_mul x (float_of_int b))))"
| "num_mul (FloatV x) (FloatV y) = Inr (FloatV (float_mul x y))"

fun py_int :: "num \<Rightarrow> error + int" where
  "py_int (IntV i) = Inr i"
| "py_int (FloatV x) =
     (case float_trunc x of
        Some i \<Rightarrow> Inr i
      | None \<Rightarrow> if float_is_inf x then Inl PyOverflowError else Inl PyValueError)"

definition to_ms :: "num \<Rightarrow> num \<Rightarrow> error + int" where
  \<comment> \<open>\<^verbatim>\<open>int(length * bpm_to_ms)\<close>\<close>
  "to_ms len mult = (case num_mul len mult of Inl e \<Rightarrow> Inl e | Inr x \<Rightarrow> py_int x)"

fun find_in_includes :: "env \<Rightarrow> string list \<Rightarrow> string \<Rightarrow> string option \<Rightarrow> string option" where
  \<comment> \<open>the loop over \<^verbatim>\<open>self.state.includes\<close>: it has no \<^verbatim>\<open>break\<close>\<close>
  "find_in_includes os [] fname filepath = filepath"
| "find_in_includes os (dir # dirs) fname filepath =
     (let checkfile = path_join os dir fname in
      find_in_includes os dirs fname
        (if isfile os checkfile then Some (abspath os checkfile) else filepath))"

fun find_file :: "env \<Rightarrow> string list \<Rightarrow> param \<Rightarrow> error + string option" where
  \<comment> \<open>the search of \<^verbatim>\<open>__process_import_command\<close> and \<^verbatim>\<open>__process_play_command\<close>\<close>
  "find_file os dirs (PStr fname) =
     Inr (if isfile os fname then Some (abspath os fname)
          else find_in_includes os dirs fname None)"
| "find_file os dirs (PInt fd) =
     (if isfile_fd os fd then Inl PyTypeError
      else if dirs = [] then Inr None
      else Inl PyTypeError)"
| "find_file os dirs (PFloat x) = Inl PyTypeError"

definition process_bpm_command :: "param list \<Rightarrow> machine \<Rightarrow> error + (string \<times> machine)" where
  "process_bpm_command parameters m =
     (case parameters of
        [] \<Rightarrow> Inl PyIndexError
      | bpm # ps \<Rightarrow>
          (case set_bpm bpm (st m) of
             Inl e \<Rightarrow> Inl e
           | Inr st' \<Rightarrow> Inr ([], m\<lparr>st := st'\<rparr>)))"

definition process_name_command :: "env \<Rightarrow> onode \<Rightarrow> param list \<Rightarrow> machine \<Rightarrow> error + (string \<times> machine)" where
  "process_name_command os node parameters m =
     (case parameters of
        [] \<Rightarrow> Inl PyIndexError
      | name # ps \<Rightarrow>
          if param_in name VOICE_DEFAULT_NAMES then
            (case obj_str os (heap m) node of Inl e \<Rightarrow> Inl e | Inr s \<Rightarrow> Inr (s, m))
          else
            (case (case name of PStr n \<Rightarrow> voices (st m) n | _ \<Rightarrow> None) of
               None \<Rightarrow> Inl (ProcessorException (obj_pos node) ''NameError'')
             | Some d \<Rightarrow>
                 Inr (concat (map (\<lambda>(k, v). ''[:dv '' @ k @ '' '' @ py_str_int v @ '']'') d), m)))"

definition process_play_command :: "env \<Rightarrow> onode \<Rightarrow> oid \<Rightarrow> param list \<Rightarrow> machine \<Rightarrow> error + (string \<times> machine)" where
  "process_play_command os node i parameters m =
     (case parameters of
        [] \<Rightarrow> Inl PyIndexError
      | fname # ps \<Rightarrow>
          (case find_file os (include_dirs (st m)) fname of
             Inl e \<Rightarrow> Inl e
           | Inr None \<Rightarrow> Inl (ProcessorException (obj_pos node) ''FileNotFoundError'')
           | Inr (Some filepath) \<Rightarrow>
               (let m1 = m\<lparr>heap := set_cell i (CommandCell (PStr filepath # ps)) (heap m)\<rparr> in
                case obj_str os (heap m1) node of
                  Inl e \<Rightarrow> Inl e
                | Inr s \<Rightarrow> Inr (s, m1))))"

text \<open>The three loops of \<^verbatim>\<open>__process_sound\<close>, and the function.\<close>

function sound_head :: "onode list \<Rightarrow> nat \<Rightarrow> string \<Rightarrow> error + (nat \<times> string)" where
  "sound_head sound vowel_start head =
     (if vowel_start < length sound then
        (case sound ! vowel_start of
           PhonemeObj i p phoneme \<Rightarrow>
             if phoneme \<notin> set PHONEMES_CONSONANTS then Inr (vowel_start, head)
             else sound_head sound (vowel_start + 1) (head @ ''['' @ phoneme @ ''<15>]'')
         | _ \<Rightarrow> Inl PyAttributeError)
      else Inr (vowel_start, head))"
  by pat_completeness auto
termination
  by (relation "measure (\<lambda>(sound, i, h). length sound - i)") auto

declare sound_head.simps [simp del]

function sound_tail :: "onode list \<Rightarrow> int \<Rightarrow> string \<Rightarrow> error + (int \<times> string)" where
  "sound_tail sound vowel_end tail =
     (if 0 \<le> vowel_end then
        (if length sound \<le> nat vowel_end then Inl PyIndexError
         else
           (case sound ! nat vowel_end of
              PhonemeObj i p phoneme \<Rightarrow>
                if phoneme \<notin> set PHONEMES_CONSONANTS then Inr (vowel_end, tail)
                else sound_tail sound (vowel_end - 1) (''['' @ phoneme @ ''<15>]'' @ tail)
            | _ \<Rightarrow> Inl PyAttributeError))
      else Inr (vowel_end, tail))"
  by pat_completeness auto
termination
  by (relation "measure (\<lambda>(sound, i, t). nat (i + 1))") auto

declare sound_tail.simps [simp del]

fun sound_vowels :: "env \<Rightarrow> onode list \<Rightarrow> int \<Rightarrow> int \<Rightarrow> store \<Rightarrow> string \<Rightarrow> error + (string \<times> store)" where
  \<comment> \<open>\<^verbatim>\<open>for phoneme in sound[vowel_start:vowel_end]\<close>: the assignments stay in the store\<close>
  "sound_vowels os [] vlength pitch s vowels = Inr (vowels, s)"
| "sound_vowels os (PhonemeObj i p phoneme # objs) vlength pitch s vowels =
     (let s1 = set_cell i (PhonemeCell (IntV vlength) pitch) s in
      case obj_str os s1 (PhonemeObj i p phoneme) of
        Inl e \<Rightarrow> Inl e
      | Inr t \<Rightarrow> sound_vowels os objs vlength pitch s1 (vowels @ t))"
| "sound_vowels os (EofObj p # objs) vlength pitch s vowels = Inl Impossible"
| "sound_vowels os (obj # objs) vlength pitch s vowels =
     (case obj_str os s obj of
        Inl e \<Rightarrow> Inl e
      | Inr t \<Rightarrow> sound_vowels os objs vlength pitch s (vowels @ t))"

definition py_slice :: "'a list \<Rightarrow> int \<Rightarrow> int \<Rightarrow> 'a list" where
  \<comment> \<open>\<^verbatim>\<open>xs[i:j]\<close> for \<open>0 \<le> i\<close> and \<open>0 \<le> j\<close>\<close>
  "py_slice xs i j = take (nat j - nat i) (drop (nat i) xs)"

definition process_sound :: "env \<Rightarrow> onode \<Rightarrow> machine \<Rightarrow> error + (string \<times> machine)" where
  "process_sound os node m =
     (case node of
        PhonemeObj i p phoneme \<Rightarrow>
          (case (sounds (st m) (KStr phoneme), cells (heap m) i) of
             (Some sound, Some (PhonemeCell (IntV len) pitch)) \<Rightarrow>
               (case sound_head sound 0 [] of
                  Inl e \<Rightarrow> Inl e
                | Inr (vowel_start, head) \<Rightarrow>
                    (case sound_tail sound (int (length sound) - 1) [] of
                       Inl e \<Rightarrow> Inl e
                     | Inr (vowel_end0, tail) \<Rightarrow>
                         (let vowel_end = vowel_end0 + 1;
                              vcount = vowel_end - int vowel_start;
                              ccount = int (length sound) - vcount
                          in if vcount = 0 then Inl PyZeroDivisionError
                             else
                               (let vlength = (len - 15 * ccount) div vcount in
                                if len < 15 * ccount
                                then Inl (ProcessorException p ''RuntimeError'')
                                else
                                  (case sound_vowels os
                                          (py_slice sound (int vowel_start) vowel_end)
                                          vlength pitch (heap m) [] of
                                     Inl e \<Rightarrow> Inl e
                                   | Inr (vowels, s') \<Rightarrow>
                                       Inr (head @ vowels @ tail, m\<lparr>heap := s'\<rparr>))))))
           | (None, c) \<Rightarrow> Inl PyKeyError
           | _ \<Rightarrow> Inl Impossible)
      | _ \<Rightarrow> Inl PyAttributeError)"

text \<open>
  \<^verbatim>\<open>build * n\<close>. CPython takes the count as a machine integer of 64 bits and raises
  \<^verbatim>\<open>OverflowError\<close> for a count that does not fit; a count below 1 gives the empty
  string and the count 1 the string itself, and so do copies of the empty
  string; a result of more than \<open>2 ^ 63 - 1\<close>
  characters is refused with \<^verbatim>\<open>OverflowError\<close>, and one the memory cannot hold with
  \<^verbatim>\<open>MemoryError\<close>. A count that is a float or a string is a \<^verbatim>\<open>TypeError\<close>.
\<close>

definition py_str_mul :: "env \<Rightarrow> string \<Rightarrow> param \<Rightarrow> error + string" where
  "py_str_mul os build q =
     (case q of
        PInt n \<Rightarrow>
          if n < - (2 ^ 63) \<or> 2 ^ 63 \<le> n then Inl PyOverflowError
          else if n < 1 then Inr []
          else if n = 1 then Inr build
          else if build = [] then Inr []
          else if (2 ^ 63 - 1) div n < int (length build) then Inl PyOverflowError
          else if memory os < int (length build) * n then Inl PyMemoryError
          else Inr (concat (replicate (nat n) build))
      | _ \<Rightarrow> Inl PyTypeError)"

definition Processor :: "onode list \<Rightarrow> error + onode list" where
  \<comment> \<open>\<^verbatim>\<open>Processor.__init__\<close> reads \<^verbatim>\<open>nodes[0]\<close>\<close>
  "Processor nodes = (if nodes = [] then Inl PyIndexError else Inr nodes)"

text \<open>
  The functions of the processor that call each other. Nothing bounds their work: a
  phrase may replay itself and a file may import itself. The first argument is the
  fuel: every call and every pass of the loop of \<^verbatim>\<open>process\<close> takes one unit, and
  \<open>OutOfFuel\<close> says that the fuel did not suffice. The position is that of
  \<^verbatim>\<open>self.node\<close>, the node of the list the processor is at.

  \<open>process_nodes\<close> is the loop of \<^verbatim>\<open>process\<close>; its number is \<^verbatim>\<open>self.index\<close>.
\<close>

function (sequential) process_nodes :: "nat \<Rightarrow> env \<Rightarrow> onode list \<Rightarrow> nat \<Rightarrow> machine \<Rightarrow> error + machine"
  and process_command :: "nat \<Rightarrow> env \<Rightarrow> position \<Rightarrow> onode \<Rightarrow> machine \<Rightarrow> error + (string \<times> machine)"
  and process_context :: "nat \<Rightarrow> env \<Rightarrow> position \<Rightarrow> onode list \<Rightarrow> machine \<Rightarrow> error + (string \<times> machine)"
  and process_phoneme :: "nat \<Rightarrow> env \<Rightarrow> position \<Rightarrow> onode \<Rightarrow> machine \<Rightarrow> error + (string \<times> machine)" where
  "process_nodes 0 os nodes idx m = Inl OutOfFuel"
| "process_nodes (Suc k) os nodes idx m =
     (let node = (if idx < length nodes then nodes ! idx else last nodes) in
      case node of
        EofObj p \<Rightarrow> Inr m
      | PhonemeObj i p phoneme \<Rightarrow>
          (case cells (heap m) i of
             Some (PhonemeCell len pitch) \<Rightarrow>
               (case to_ms len (bpm_to_ms (st m)) of
                  Inl e \<Rightarrow> Inl e
                | Inr ms \<Rightarrow>
                    (case process_phoneme k os p node
                            (m\<lparr>heap := set_cell i (PhonemeCell (IntV ms) pitch) (heap m)\<rparr>) of
                       Inl e \<Rightarrow> Inl e
                     | Inr (buffer, m1) \<Rightarrow>
                         process_nodes k os nodes (idx + 1) (m1\<lparr>written := written m1 @ buffer\<rparr>)))
           | _ \<Rightarrow> Inl Impossible)
      | _ \<Rightarrow>
          (case snapshot (heap m) node of
             Inl e \<Rightarrow> Inl e
           | Inr n \<Rightarrow>
               (case validate n of
                  Inl e \<Rightarrow> Inl e
                | Inr u \<Rightarrow>
                    (case process_command k os (obj_pos node) node m of
                       Inl e \<Rightarrow> Inl e
                     | Inr (buffer, m1) \<Rightarrow>
                         process_nodes k os nodes (idx + 1) (m1\<lparr>written := written m1 @ buffer\<rparr>)))))"
| "process_command 0 os pos0 node m = Inl OutOfFuel"
| "process_command (Suc k) os pos0 (CommandObj i p command objs) m =
     (case cells (heap m) i of
        Some (CommandCell parameters) \<Rightarrow>
          (if command \<in> set [''mode'', ''phoneme'', ''pitch'', ''pronounce''] then Inr ([], m)
           else if command = ''name'' then
             process_name_command os (CommandObj i p command objs) parameters m
           else if command = ''play'' then
             process_play_command os (CommandObj i p command objs) i parameters m
           else if command = ''bpm'' then process_bpm_command parameters m
           else if command = ''import'' then
             (case parameters of
                [] \<Rightarrow> Inl PyIndexError
              | fname # ps \<Rightarrow>
                  (case find_file os (include_dirs (st m)) fname of
                     Inl e \<Rightarrow> Inl e
                   | Inr None \<Rightarrow> Inl (ProcessorException p ''FileNotFoundError'')
                   | Inr (Some filepath) \<Rightarrow>
                       (case parse os filepath of
                          Inl e \<Rightarrow> Inl e
                        | Inr nodes \<Rightarrow>
                            (let (objs', s1) = alloc_list nodes (heap m) in
                             case Processor objs' of
                               Inl e \<Rightarrow> Inl e
                             | Inr nodes' \<Rightarrow>
                                 (case process_nodes k os nodes' 0 (m\<lparr>heap := s1\<rparr>) of
                                    Inl e \<Rightarrow> Inl e
                                  | Inr m1 \<Rightarrow> Inr ([], m1))))))
           else if command = ''loop'' then
             (case parameters of
                [] \<Rightarrow> Inl PyIndexError
              | q # ps \<Rightarrow>
                  (case process_context k os pos0 objs m of
                     Inl e \<Rightarrow> Inl e
                   | Inr (build, m1) \<Rightarrow>
                       (case cells (heap m1) i of
                          Some (CommandCell (n # ps')) \<Rightarrow>
                            (case py_str_mul os build n of
                               Inl e \<Rightarrow> Inl e
                             | Inr s \<Rightarrow> Inr (s, m1))
                        | _ \<Rightarrow> Inl Impossible)))
           else if command \<in> set [''phrase'', ''sound'', ''voice''] then
             (case register os (heap m) (CommandObj i p command objs) (st m) of
                Inl e \<Rightarrow> Inl e
              | Inr st' \<Rightarrow> Inr ([], m\<lparr>st := st'\<rparr>))
           else
             (case obj_str os (heap m) (CommandObj i p command objs) of
                Inl e \<Rightarrow> Inl e
              | Inr s \<Rightarrow> Inr (s, m)))
      | _ \<Rightarrow> Inl Impossible)"
| "process_command (Suc k) os pos0 (VoiceObj p name parameters) m =
     (case register os (heap m) (VoiceObj p name parameters) (st m) of
        Inl e \<Rightarrow> Inl e
      | Inr st' \<Rightarrow> Inr ([], m\<lparr>st := st'\<rparr>))"
| "process_command (Suc k) os pos0 (PhonemeObj i p phoneme) m = Inl PyAttributeError"
| "process_command (Suc k) os pos0 (EofObj p) m = Inl PyAttributeError"
| "process_context 0 os pos0 objs m = Inl OutOfFuel"
| "process_context (Suc k) os pos0 [] m = Inr ([], m)"
| "process_context (Suc k) os pos0 (PhonemeObj i p phoneme # objs) m =
     (case cells (heap m) i of
        Some (PhonemeCell original_length pitch) \<Rightarrow>
          (case to_ms original_length (bpm_to_ms (st m)) of
             Inl e \<Rightarrow> Inl e
           | Inr ms \<Rightarrow>
               (case process_phoneme k os pos0 (PhonemeObj i p phoneme)
                       (m\<lparr>heap := set_cell i (PhonemeCell (IntV ms) pitch) (heap m)\<rparr>) of
                  Inl e \<Rightarrow> Inl e
                | Inr (b, m1) \<Rightarrow>
                    (case cells (heap m1) i of
                       Some (PhonemeCell len1 pitch1) \<Rightarrow>
                         (case process_context (Suc k) os pos0 objs
                                 (m1\<lparr>heap := set_cell i (PhonemeCell original_length pitch1) (heap m1)\<rparr>) of
                            Inl e \<Rightarrow> Inl e
                          | Inr (build, m2) \<Rightarrow> Inr (b @ build, m2))
                     | _ \<Rightarrow> Inl Impossible)))
      | _ \<Rightarrow> Inl Impossible)"
| "process_context (Suc k) os pos0 (EofObj p # objs) m = Inl PyAttributeError"
| "process_context (Suc k) os pos0 (obj # objs) m =
     (case process_command k os pos0 obj m of
        Inl e \<Rightarrow> Inl e
      | Inr (b, m1) \<Rightarrow>
          (case process_context (Suc k) os pos0 objs m1 of
             Inl e \<Rightarrow> Inl e
           | Inr (build, m2) \<Rightarrow> Inr (b @ build, m2)))"
| "process_phoneme 0 os pos0 node m = Inl OutOfFuel"
| "process_phoneme (Suc k) os pos0 (PhonemeObj i p phoneme) m =
     (if phoneme \<in> set PHONEMES then
        (case obj_str os (heap m) (PhonemeObj i p phoneme) of
           Inl e \<Rightarrow> Inl e
         | Inr s \<Rightarrow> Inr (s, m))
      else
        (case phrases (st m) (KStr phoneme) of
           Some phrase \<Rightarrow> process_context k os pos0 phrase m
         | None \<Rightarrow>
             if sounds (st m) (KStr phoneme) \<noteq> None
             then process_sound os (PhonemeObj i p phoneme) m
             else Inl (ProcessorException pos0 ''NameError'')))"
| "process_phoneme (Suc k) os pos0 node m = Inl PyAttributeError"
  by pat_completeness auto
termination
  by (relation "inv_image (less_than <*lex*> less_than)
        (\<lambda>x. case x of
           Inl (Inl (k, os, nodes, idx, m)) \<Rightarrow> (k, 0)
         | Inl (Inr (k, os, pos0, node, m)) \<Rightarrow> (k, 0)
         | Inr (Inl (k, os, pos0, objs, m)) \<Rightarrow> (k, length objs)
         | Inr (Inr (k, os, pos0, node, m)) \<Rightarrow> (k, 0))") auto

text \<open>
  A compilation as the tests set it up: a state with the include directories, the
  nodes of the source, a processor with an empty writer, and \<^verbatim>\<open>process\<close>.
\<close>

definition process :: "nat \<Rightarrow> env \<Rightarrow> onode list \<Rightarrow> machine \<Rightarrow> error + machine" where
  "process fuel os nodes m = process_nodes fuel os nodes 0 m"

definition compile :: "nat \<Rightarrow> env \<Rightarrow> string list \<Rightarrow> string \<Rightarrow> error + machine" where
  "compile fuel os incl source =
     (case parse os source of
        Inl e \<Rightarrow> Inl e
      | Inr nodes \<Rightarrow>
          (let (objs, s) = alloc_list nodes empty_store in
           case Processor objs of
             Inl e \<Rightarrow> Inl e
           | Inr nodes' \<Rightarrow> process fuel os nodes' \<lparr>heap = s, st = State os incl, written = []\<rparr>))"

definition emitted :: "error + machine \<Rightarrow> error + string" where
  "emitted r = (case r of Inl e \<Rightarrow> Inl e | Inr m \<Rightarrow> Inr (written m))"

text \<open>An operating system whose files are the listed ones, by name, with their texts.\<close>

definition with_files :: "(string \<times> string) list \<Rightarrow> env" where
  "with_files files =
     no_files\<lparr>isfile := (\<lambda>p. map_of files p \<noteq> None), readfile := map_of files\<rparr>"

text \<open>
  The text of \<^verbatim>\<open>PhonemeNode.__repr__\<close> for a phoneme whose length is an int: the
  length and the pitch are written when they are positive.
\<close>

definition phoneme_text :: "string \<Rightarrow> int \<Rightarrow> int \<Rightarrow> string" where
  "phoneme_text phoneme len pitch =
     ''['' @ phoneme @
       (if 0 < pitch + len
        then ''<'' @ (if 0 < len then py_str_int len else [])
                   @ (if 0 < pitch then '','' @ py_str_int pitch else []) @ ''>''
        else []) @ '']''"

lemma node_repr_int:
  "node_repr os (PhonemeNode p phoneme (IntV len) pitch) = Inr (phoneme_text phoneme len pitch)"
  by (simp add: phoneme_text_def)

subsection \<open>Machines for the instances of the theorems\<close>


subsection \<open>The shape of a validated sound\<close>

text \<open>
  What \<^verbatim>\<open>_validate_sound_command\<close> lets pass, read off the objects of a registered
  sound: phonemes that are consonants, and phonemes that are vowels.
\<close>

fun obj_phoneme :: "onode \<Rightarrow> string" where
  "obj_phoneme (PhonemeObj i p phoneme) = phoneme"
| "obj_phoneme obj = []"

fun is_consonant_obj :: "onode \<Rightarrow> bool" where
  "is_consonant_obj (PhonemeObj i p phoneme) = (phoneme \<in> set PHONEMES_CONSONANTS)"
| "is_consonant_obj obj = False"

fun is_vowel_obj :: "onode \<Rightarrow> bool" where
  "is_vowel_obj (PhonemeObj i p phoneme) = (phoneme \<in> set PHONEMES_VOWELS)"
| "is_vowel_obj obj = False"

fun is_phoneme_obj :: "onode \<Rightarrow> bool" where
  "is_phoneme_obj (PhonemeObj i p phoneme) = True"
| "is_phoneme_obj obj = False"

text \<open>
  The sound \<^verbatim>\<open>ba\<close> of the phonemes \<^verbatim>\<open>b\<close> (object 0) and \<^verbatim>\<open>aa\<close> (object 1), registered,
  and the phoneme \<^verbatim>\<open>ba<30,4>\<close> (object 2) that invokes it.
\<close>

definition sound_machine :: machine where
  "sound_machine =
     \<lparr>heap = \<lparr>cells = (\<lambda>i. None)(0 := Some (PhonemeCell (IntV 0) 0),
                                      Suc 0 := Some (PhonemeCell (IntV 0) 0),
                                      Suc (Suc 0) := Some (PhonemeCell (IntV 30) 4)),
              next_oid = Suc (Suc (Suc 0))\<rparr>,
      st = (State no_files [])\<lparr>sounds := (\<lambda>k. if k = KStr ''ba''
               then Some [PhonemeObj 0 (Position []) ''b'', PhonemeObj (Suc 0) (Position []) ''aa'']
               else None)\<rparr>,
      written = []\<rparr>"








subsection \<open>One pass over the context of a loop, in the words of the specification\<close>







section \<open>The claims\<close>

text \<open>
  C7 (the code departs from the claim). A source that consists only of comments should
  lex to the single end-of-input token. The block comment \<^verbatim>\<open>/***/\<close> is closed by
  \<^verbatim>\<open>*/\<close>, but the loop of \<^verbatim>\<open>scan_comment\<close> advances past the character that follows
  a \<^verbatim>\<open>*\<close> without testing it for another \<^verbatim>\<open>*\<close>, misses the closing \<^verbatim>\<open>*/\<close> and runs to
  the end of the source, where the lexer raises. The comment \<^verbatim>\<open>/**/\<close> lexes as claimed.
\<close>

theorem C7_comment_ending_in_two_stars:
  "scan no_files ''/***/'' = Inl PyTypeError \<and>
   scan no_files ''/**/'' =
     Inr [Token T_EOF VNone \<lparr>filename = [], index = 4, line = 0, column = 4\<rparr>]"
  by code_simp

text \<open>
  C8 (the code departs from the claim). An unterminated block comment should raise a
  lexical error that reports the comment's start position. The \<^verbatim>\<open>raise\<close> statement
  calls \<^verbatim>\<open>LexerException\<close> with two arguments instead of three (a comma is missing
  between two string literals), so what is raised is Python's \<^verbatim>\<open>TypeError\<close>, which
  carries no position.
\<close>

theorem C8_unterminated_block_comment:
  "scan no_files ''/* x'' = Inl PyTypeError \<and>
   scan no_files ''a /* x'' = Inl PyTypeError"
  by code_simp

text \<open>
  C1 (corrected). The claim: registering a name that is already registered always
  raises a Registration error, also when the name is registered twice as a phrase or
  twice as a sound. \<^verbatim>\<open>State.register\<close> only looks for the name among the built-in
  phonemes and in the other dictionary: a second registration of the same kind
  replaces the stored definition without an error, as the repository's import tests
  rely on (they import a file that registers a phrase up to five times). Here the
  second definition of \<^verbatim>\<open>foo\<close> is the one that is replayed.
\<close>

theorem C1_second_registration_of_a_kind_overwrites:
  "emitted (compile 10 no_files [] ''[:phrase foo] {aa} [:phrase foo] {b} foo'') = Inr ''[b]'' \<and>
   emitted (compile 10 no_files [] ''[:sound foo] {aa} [:sound foo] {b aa} foo<20>'') = Inr ''[b<15>][aa<5>]''"
  by code_simp

text \<open>
  C1 as amended: for every compilation state, registering as a phrase a name that is
  registered as a sound raises \<^verbatim>\<open>StateException\<close> with the tag \<^verbatim>\<open>RegistrationError\<close>,
  and so does registering as a sound a name that is registered as a phrase;
  registering a name (not a built-in phoneme) as a phrase when no sound has it, or as
  a sound when no phrase has it, succeeds and stores the new definition under the
  name, whether or not the same dictionary already held one.
\<close>

theorem C1_register_collisions:
  assumes "cells s i = Some (CommandCell (name # ps))"
  shows "(sounds S (key_of name) \<noteq> None \<longrightarrow>
            register os s (CommandObj i p ''phrase'' objs) S = Inl (StateException p ''RegistrationError'')) \<and>
         (phrases S (key_of name) \<noteq> None \<longrightarrow>
            register os s (CommandObj i p ''sound'' objs) S = Inl (StateException p ''RegistrationError'')) \<and>
         (\<not> param_in name PHONEMES \<and> sounds S (key_of name) = None \<longrightarrow>
            register os s (CommandObj i p ''phrase'' objs) S =
              Inr (S\<lparr>phrases := (phrases S)(key_of name := Some objs)\<rparr>)) \<and>
         (\<not> param_in name PHONEMES \<and> phrases S (key_of name) = None \<longrightarrow>
            register os s (CommandObj i p ''sound'' objs) S =
              Inr (S\<lparr>sounds := (sounds S)(key_of name := Some objs)\<rparr>))"
  using assms by auto

theorem C1_register_collisions_witness:
  "register no_files (set_cell 0 (CommandCell [PStr ''foo'']) empty_store)
      (CommandObj 0 (Position []) ''phrase'' [])
      ((State no_files [])\<lparr>sounds := (\<lambda>k. if k = KStr ''foo'' then Some [] else None)\<rparr>)
     = Inl (StateException (Position []) ''RegistrationError'') \<and>
   register no_files (set_cell 0 (CommandCell [PStr ''foo'']) empty_store)
      (CommandObj 0 (Position []) ''sound'' [])
      ((State no_files [])\<lparr>phrases := (\<lambda>k. if k = KStr ''foo'' then Some [] else None)\<rparr>)
     = Inl (StateException (Position []) ''RegistrationError'') \<and>
   register no_files (set_cell 0 (CommandCell [PStr ''foo'']) empty_store)
      (CommandObj 0 (Position []) ''phrase'' [EofObj (Position [])])
      ((State no_files [])\<lparr>phrases := (\<lambda>k. if k = KStr ''foo'' then Some [] else None)\<rparr>)
     = Inr ((State no_files [])\<lparr>phrases :=
              (\<lambda>k. if k = KStr ''foo'' then Some [] else None)(KStr ''foo'' := Some [EofObj (Position [])])\<rparr>) \<and>
   register no_files (set_cell 0 (CommandCell [PStr ''foo'']) empty_store)
      (CommandObj 0 (Position []) ''sound'' [EofObj (Position [])])
      ((State no_files [])\<lparr>sounds := (\<lambda>k. if k = KStr ''foo'' then Some [] else None)\<rparr>)
     = Inr ((State no_files [])\<lparr>sounds :=
              (\<lambda>k. if k = KStr ''foo'' then Some [] else None)(KStr ''foo'' := Some [EofObj (Position [])])\<rparr>)"
proof -
  have c: "cells (set_cell 0 (CommandCell [PStr ''foo'']) empty_store) 0 = Some (CommandCell (PStr ''foo'' # []))"
    by (simp add: set_cell_def empty_store_def)
  have np: "\<not> param_in (PStr ''foo'') PHONEMES"
    by (simp add: PHONEMES_def PHONEMES_CONSONANTS_def PHONEMES_VOWELS_def PHONEMES_SYMBOLS_def)
  show ?thesis
    using C1_register_collisions [OF c, of "(State no_files [])\<lparr>sounds := (\<lambda>k. if k = KStr ''foo'' then Some [] else None)\<rparr>" no_files "Position []" "[]"]
          C1_register_collisions [OF c, of "(State no_files [])\<lparr>phrases := (\<lambda>k. if k = KStr ''foo'' then Some [] else None)\<rparr>" no_files "Position []" "[]"]
          C1_register_collisions [OF c, of "(State no_files [])\<lparr>phrases := (\<lambda>k. if k = KStr ''foo'' then Some [] else None)\<rparr>" no_files "Position []" "[EofObj (Position [])]"]
          C1_register_collisions [OF c, of "(State no_files [])\<lparr>sounds := (\<lambda>k. if k = KStr ''foo'' then Some [] else None)\<rparr>" no_files "Position []" "[EofObj (Position [])]"]
          np
    by (simp add: State_def)
qed

text \<open>
  C3 (corrected). The claim: the path of an import is looked up in the current file's
  directory first and then in the include directories in order, and the first
  existing match wins. \<^verbatim>\<open>__process_import_command\<close> first tests the path as it is
  written (which the operating system resolves against the working directory of the
  process, not against the directory of the importing file); when that is no file,
  its loop over the include directories assigns \<^verbatim>\<open>filepath\<close> at every directory
  that has the file and never leaves early, so the \<^emph>\<open>last\<close> directory that has the file
  wins. With the file in both \<^verbatim>\<open>d1\<close> and \<^verbatim>\<open>d2\<close>, the import reads the one of \<^verbatim>\<open>d2\<close>.
\<close>

theorem C3_last_include_directory_wins:
  "emitted (compile 10
      (with_files [(''d1/lib.od'', ''aa<1>''), (''d2/lib.od'', ''aa<2>'')])
      [''d1'', ''d2''] ''[:import lib.od]'') = Inr ''[aa<2>]'' \<and>
   find_file (with_files [(''d1/lib.od'', ''aa<1>''), (''d2/lib.od'', ''aa<2>'')])
      [''/'', ''d1'', ''d2''] (PStr ''lib.od'') = Inr (Some ''d2/lib.od'')"
  by code_simp

lemma find_in_includes_last:
  "find_in_includes os dirs f acc =
     (case filter (\<lambda>d. isfile os (path_join os d f)) dirs of
        [] \<Rightarrow> acc
      | d # ds \<Rightarrow> Some (abspath os (path_join os (last (d # ds)) f)))"
proof (induction dirs arbitrary: acc)
  case Nil
  show ?case by simp
next
  case (Cons d dirs)
  show ?case
    by (simp add: Cons.IH Let_def split: list.splits)
qed

text \<open>
  C3 as amended: the path is first tried as written; when that is no file, the path
  is joined to every include directory, in list order, and the last directory whose
  joined path is a file wins; when the path is no file and no include directory has
  it, the import command raises \<^verbatim>\<open>ProcessorException\<close> with the tag
  \<^verbatim>\<open>FileNotFoundError\<close> at the command's position.
\<close>

theorem C3_import_search:
  "find_file os dirs (PStr f) =
     Inr (if isfile os f then Some (abspath os f)
          else case filter (\<lambda>d. isfile os (path_join os d f)) dirs of
                 [] \<Rightarrow> None
               | d # ds \<Rightarrow> Some (abspath os (path_join os (last (d # ds)) f))) \<and>
   (cells (heap m) i = Some (CommandCell (PStr f # ps)) \<and>
    \<not> isfile os f \<and> (\<forall>d \<in> set (include_dirs (st m)). \<not> isfile os (path_join os d f)) \<longrightarrow>
      process_command (Suc k) os pos0 (CommandObj i p ''import'' objs) m =
        Inl (ProcessorException p ''FileNotFoundError''))"
proof -
  have a: "find_file os dirs (PStr f) =
     Inr (if isfile os f then Some (abspath os f)
          else case filter (\<lambda>d. isfile os (path_join os d f)) dirs of
                 [] \<Rightarrow> None
               | d # ds \<Rightarrow> Some (abspath os (path_join os (last (d # ds)) f)))" for dirs
    by (simp add: find_in_includes_last)
  have b: "process_command (Suc k) os pos0 (CommandObj i p ''import'' objs) m =
        Inl (ProcessorException p ''FileNotFoundError'')"
    if c: "cells (heap m) i = Some (CommandCell (PStr f # ps))" and nf: "\<not> isfile os f"
      and nd: "\<forall>d \<in> set (include_dirs (st m)). \<not> isfile os (path_join os d f)"
  proof -
    from nd have "filter (\<lambda>d. isfile os (path_join os d f)) (include_dirs (st m)) = []"
      by (simp add: filter_empty_conv)
    with nf have "find_file os (include_dirs (st m)) (PStr f) = Inr None"
      by (simp add: find_in_includes_last)
    with c show ?thesis by simp
  qed
  from a b show ?thesis by blast
qed

theorem C3_import_search_witness:
  "find_file (with_files [(''d1/lib.od'', ''aa<1>''), (''d2/lib.od'', ''aa<2>'')])
      [''d1'', ''d2''] (PStr ''lib.od'') = Inr (Some ''d2/lib.od'') \<and>
   process_command (Suc 0) no_files (Position [])
      (CommandObj 0 (Position []) ''import'' [])
      \<lparr>heap = set_cell 0 (CommandCell [PStr ''lib.od'']) empty_store,
       st = State no_files [''d1''], written = []\<rparr>
     = Inl (ProcessorException (Position []) ''FileNotFoundError'')"
proof -
  let ?m = "\<lparr>heap = set_cell 0 (CommandCell [PStr ''lib.od'']) empty_store,
       st = State no_files [''d1''], written = []\<rparr>"
  have c: "cells (heap ?m) 0 = Some (CommandCell (PStr ''lib.od'' # []))"
    by (simp add: set_cell_def empty_store_def)
  have nf: "\<not> isfile no_files ''lib.od''" by (simp add: no_files_def)
  have nd: "\<forall>d \<in> set (include_dirs (st ?m)). \<not> isfile no_files (path_join no_files d ''lib.od'')"
    by (simp add: no_files_def)
  have e: "find_file (with_files [(''d1/lib.od'', ''aa<1>''), (''d2/lib.od'', ''aa<2>'')])
      [''d1'', ''d2''] (PStr ''lib.od'') = Inr (Some ''d2/lib.od'')"
    using C3_import_search [of "with_files [(''d1/lib.od'', ''aa<1>''), (''d2/lib.od'', ''aa<2>'')]"
        "[''d1'', ''d2'']" "''lib.od''"]
    by (simp add: with_files_def no_files_def)
  show ?thesis
    using C3_import_search [of no_files "[]" "''lib.od''" ?m 0 "[]" 0 "Position []" "Position []" "[]"] c nf nd e
    by simp
qed





text \<open>
  C6 (the code departs from the claim). \<^verbatim>\<open>[:loop N] {x}\<close> should emit \<open>N\<close> copies of what
  one pass over \<open>x\<close> emits, and nothing for \<open>N = 0\<close>. Every processing function is to
  return the text it produces (the note above \<^verbatim>\<open>__process_command\<close>), and the loop
  multiplies what its context returns: a command such as \<^verbatim>\<open>[:cp 50]\<close> is repeated. But
  \<^verbatim>\<open>__process_import_command\<close> returns the empty string and has the imported file's
  processor write to the shared writer. With a file \<^verbatim>\<open>lib.od\<close> that holds \<^verbatim>\<open>aa<10>\<close>,
  \<^verbatim>\<open>[:import lib.od]\<close> emits \<^verbatim>\<open>[aa<10>]\<close>, and so do \<^verbatim>\<open>[:loop 3] { [:import lib.od] }\<close>, where
  three copies are due, and \<^verbatim>\<open>[:loop 0] { [:import lib.od] }\<close>, where nothing is due; and
  in \<^verbatim>\<open>[:loop 1] { aa [:import lib.od] }\<close> the imported text comes before the text of
  the phoneme that stands before the import.
\<close>

theorem C6_import_inside_loop_is_written_once:
  "emitted (compile 10 (with_files [(''lib.od'', ''aa<10>'')]) [] ''[:import lib.od]'')
     = Inr ''[aa<10>]'' \<and>
   emitted (compile 10 (with_files [(''lib.od'', ''aa<10>'')]) [] ''[:loop 3] { [:import lib.od] }'')
     = Inr ''[aa<10>]'' \<and>
   emitted (compile 10 (with_files [(''lib.od'', ''aa<10>'')]) [] ''[:loop 0] { [:import lib.od] }'')
     = Inr ''[aa<10>]'' \<and>
   emitted (compile 10 (with_files [(''lib.od'', ''b'')]) [] ''[:loop 1] { aa [:import lib.od] }'')
     = Inr ''[b][aa]'' \<and>
   emitted (compile 10 no_files [] ''[:loop 3] { [:cp 50] }'') = Inr ''[:cp 50][:cp 50][:cp 50]'' \<and>
   emitted (compile 10 no_files [] ''[:loop 3] { aa<10> }'') = Inr ''[aa<10>][aa<10>][aa<10>]'' \<and>
   emitted (compile 10 no_files [] ''[:loop 0] { aa<10> }'') = Inr []"
  by code_simp

















text \<open>
  The loops of \<^verbatim>\<open>__process_sound\<close> on a sound of consonants, vowels and consonants.
\<close>

lemma str_15: "py_str_int 15 = ''15''"
  by code_simp

lemma consonant_text: "phoneme_text phoneme 15 0 = ''['' @ phoneme @ ''<15>]''"
  by (simp add: phoneme_text_def str_15)

lemma vowel_not_consonant: "phoneme \<in> set PHONEMES_VOWELS \<Longrightarrow> phoneme \<notin> set PHONEMES_CONSONANTS"
  by (auto simp: PHONEMES_VOWELS_def PHONEMES_CONSONANTS_def)

lemma sound_head_consonants:
  assumes "list_all is_consonant_obj cs" "is_vowel_obj v"
  shows "sound_head (pre @ cs @ v # post) (length pre) h =
           Inr (length pre + length cs, h @ concat (map (\<lambda>obj. phoneme_text (obj_phoneme obj) 15 0) cs))"
  using assms(1)
proof (induction cs arbitrary: pre h)
  case Nil
  from assms(2) obtain i p ph where v: "v = PhonemeObj i p ph" "ph \<in> set PHONEMES_VOWELS"
    by (cases v) auto
  then show ?case
    by (simp add: sound_head.simps [of _ "length pre"] vowel_not_consonant)
next
  case (Cons c cs)
  from Cons.prems obtain i p ph where c: "c = PhonemeObj i p ph" "ph \<in> set PHONEMES_CONSONANTS"
    by (cases c) auto
  from Cons.prems have cs: "list_all is_consonant_obj cs" by simp
  have "sound_head (pre @ (c # cs) @ v # post) (length pre) h =
        sound_head ((pre @ [c]) @ cs @ v # post) (length (pre @ [c])) (h @ ''['' @ ph @ ''<15>]'')"
    using c by (simp add: sound_head.simps [of _ "length pre"])
  also have "\<dots> = Inr (length (pre @ [c]) + length cs,
       (h @ ''['' @ ph @ ''<15>]'') @ concat (map (\<lambda>obj. phoneme_text (obj_phoneme obj) 15 0) cs))"
    by (rule Cons.IH [OF cs])
  finally show ?case using c by (simp add: consonant_text)
qed

lemma sound_tail_step:
  "0 \<le> k \<Longrightarrow> nat k < length S \<Longrightarrow> S ! nat k = PhonemeObj i p ph \<Longrightarrow>
   ph \<in> set PHONEMES_CONSONANTS \<Longrightarrow>
     sound_tail S k t = sound_tail S (k - 1) (''['' @ ph @ ''<15>]'' @ t)"
  by (subst sound_tail.simps) simp

lemma sound_tail_stop:
  "0 \<le> k \<Longrightarrow> nat k < length S \<Longrightarrow> S ! nat k = PhonemeObj i p ph \<Longrightarrow>
   ph \<notin> set PHONEMES_CONSONANTS \<Longrightarrow> sound_tail S k t = Inr (k, t)"
  by (subst sound_tail.simps) simp

lemma sound_tail_consonants:
  assumes "list_all is_consonant_obj cs" "is_vowel_obj v"
  shows "sound_tail (pre @ v # cs @ post) (int (length pre) + int (length cs)) t =
           Inr (int (length pre), concat (map (\<lambda>obj. phoneme_text (obj_phoneme obj) 15 0) cs) @ t)"
  using assms(1)
proof (induction cs arbitrary: post t rule: rev_induct)
  case Nil
  from assms(2) obtain i p ph where v: "v = PhonemeObj i p ph" "ph \<in> set PHONEMES_VOWELS"
    by (cases v) auto
  have "sound_tail (pre @ v # post) (int (length pre)) t = Inr (int (length pre), t)"
    by (rule sound_tail_stop [where i = i and p = p and ph = ph])
       (use v in \<open>simp_all add: vowel_not_consonant\<close>)
  then show ?case by simp
next
  case (snoc c cs)
  from snoc.prems obtain i p ph where c: "c = PhonemeObj i p ph" "ph \<in> set PHONEMES_CONSONANTS"
    by (cases c) auto
  from snoc.prems have cs: "list_all is_consonant_obj cs" by simp
  let ?S = "pre @ v # (cs @ [c]) @ post"
  let ?k = "int (length pre) + int (length (cs @ [c]))"
  have k: "nat ?k = length (pre @ v # cs)" by simp
  have S: "?S = (pre @ v # cs) @ c # post" by simp
  have nth: "?S ! nat ?k = PhonemeObj i p ph"
    unfolding k S by (simp only: nth_append_length c)
  have lt: "nat ?k < length ?S" by simp
  have "sound_tail ?S ?k t = sound_tail ?S (?k - 1) (''['' @ ph @ ''<15>]'' @ t)"
    by (rule sound_tail_step [OF _ lt nth c(2)]) simp
  also have "\<dots> = sound_tail (pre @ v # cs @ (c # post)) (int (length pre) + int (length cs))
                     (''['' @ ph @ ''<15>]'' @ t)"
    by simp
  also have "\<dots> = Inr (int (length pre),
       concat (map (\<lambda>obj. phoneme_text (obj_phoneme obj) 15 0) cs) @ ''['' @ ph @ ''<15>]'' @ t)"
    by (rule snoc.IH [OF cs])
  finally show ?case using c by (simp add: consonant_text)
qed

lemma sound_vowels_text:
  "list_all is_vowel_obj vs \<Longrightarrow>
     \<exists>s'. sound_vowels os vs d pitch s acc =
            Inr (acc @ concat (map (\<lambda>obj. phoneme_text (obj_phoneme obj) d pitch) vs), s')"
proof (induction vs arbitrary: s acc)
  case Nil
  show ?case by simp
next
  case (Cons v vs)
  from Cons.prems obtain i p ph where v: "v = PhonemeObj i p ph"
    by (cases v) auto
  from Cons.prems have "list_all is_vowel_obj vs" by simp
  from Cons.IH [OF this, of "set_cell i (PhonemeCell (IntV d) pitch) s" "acc @ phoneme_text ph d pitch"]
  obtain s' where "sound_vowels os vs d pitch (set_cell i (PhonemeCell (IntV d) pitch) s)
        (acc @ phoneme_text ph d pitch) =
      Inr ((acc @ phoneme_text ph d pitch) @
           concat (map (\<lambda>obj. phoneme_text (obj_phoneme obj) d pitch) vs), s')"
    by blast
  with v show ?case
    by (simp add: obj_str_def set_cell_def node_repr_int del: node_repr.simps)
qed


lemma process_sound_steps:
  assumes "sounds (st m) (KStr name) = Some sound"
    and "cells (heap m) i = Some (PhonemeCell (IntV L) pitch)"
    and "sound_head sound 0 [] = Inr (vs0, head)"
    and "sound_tail sound (int (length sound) - 1) [] = Inr (ve0, tail)"
    and "ve0 + 1 - int vs0 = vcount" "vcount \<noteq> 0"
    and "int (length sound) - vcount = ccount" "\<not> L < 15 * ccount"
    and "sound_vowels os (py_slice sound (int vs0) (ve0 + 1)) ((L - 15 * ccount) div vcount)
           pitch (heap m) [] = Inr (vowels, s')"
  shows "process_sound os (PhonemeObj i p name) m = Inr (head @ vowels @ tail, m\<lparr>heap := s'\<rparr>)"
  unfolding process_sound_def using assms by (simp add: Let_def)

lemma process_sound_shape:
  assumes shape: "list_all is_consonant_obj cs1" "list_all is_vowel_obj vs" "vs \<noteq> []"
                 "list_all is_consonant_obj cs2"
    and reg: "sounds (st m) (KStr name) = Some (cs1 @ vs @ cs2)"
    and node: "cells (heap m) i = Some (PhonemeCell (IntV L) pitch)"
    and long: "15 * (int (length cs1) + int (length cs2)) \<le> L"
  shows "\<exists>m'. process_sound os (PhonemeObj i p name) m =
           Inr (concat (map (\<lambda>obj. phoneme_text (obj_phoneme obj) 15 0) cs1) @
                concat (map (\<lambda>obj. phoneme_text (obj_phoneme obj)
                                ((L - 15 * (int (length cs1) + int (length cs2))) div int (length vs))
                                pitch) vs) @
                concat (map (\<lambda>obj. phoneme_text (obj_phoneme obj) 15 0) cs2), m')"
proof -
  let ?sound = "cs1 @ vs @ cs2"
  let ?ct = "\<lambda>cs. concat (map (\<lambda>obj. phoneme_text (obj_phoneme obj) 15 0) cs)"
  let ?d = "(L - 15 * (int (length cs1) + int (length cs2))) div int (length vs)"
  from shape(3) obtain v vs' where vs: "vs = v # vs'" by (cases vs) auto
  with shape(2) have v: "is_vowel_obj v" by simp
  have "sound_head ([] @ cs1 @ v # (vs' @ cs2)) (length ([] :: onode list)) [] =
          Inr (length ([] :: onode list) + length cs1, [] @ ?ct cs1)"
    by (rule sound_head_consonants [OF shape(1) v])
  then have head: "sound_head ?sound 0 [] = Inr (length cs1, ?ct cs1)"
    by (simp add: vs)
  from shape(3) have bl: "vs = butlast vs @ [last vs]" by simp
  from shape(2,3) have lv: "is_vowel_obj (last vs)"
    by (simp add: list_all_iff)
  have t0: "sound_tail ((cs1 @ butlast vs) @ last vs # cs2 @ [])
          (int (length (cs1 @ butlast vs)) + int (length cs2)) [] =
        Inr (int (length (cs1 @ butlast vs)), ?ct cs2 @ [])"
    by (rule sound_tail_consonants [OF shape(4) lv])
  have e1: "(cs1 @ butlast vs) @ last vs # cs2 = ?sound"
    using bl by (metis append.assoc append_Cons append_Nil append_Nil2)
  have e2: "int (length (cs1 @ butlast vs)) + int (length cs2) = int (length ?sound) - 1"
    using shape(3) by (simp add: Suc_leI)
  from t0 have tail: "sound_tail ?sound (int (length ?sound) - 1) [] =
        Inr (int (length (cs1 @ butlast vs)), ?ct cs2)"
    by (simp only: e1 e2 append_Nil2)
  have ve: "int (length (cs1 @ butlast vs)) + 1 = int (length cs1) + int (length vs)"
    using shape(3) by (simp add: Suc_leI)
  have slice: "py_slice ?sound (int (length cs1)) (int (length cs1) + int (length vs)) = vs"
    by (simp add: py_slice_def nat_add_distrib)
  from sound_vowels_text [OF shape(2), of os ?d pitch "heap m" "[]"]
  obtain s' where vow: "sound_vowels os vs ?d pitch (heap m) [] =
      Inr ([] @ concat (map (\<lambda>obj. phoneme_text (obj_phoneme obj) ?d pitch) vs), s')"
    by blast
  have vc: "int (length vs) \<noteq> 0" using shape(3) by simp
  have vcount: "int (length (cs1 @ butlast vs)) + 1 - int (length cs1) = int (length vs)"
    using ve by simp
  have ccount: "int (length ?sound) - int (length vs) = int (length cs1) + int (length cs2)"
    by simp
  have nl: "\<not> L < 15 * (int (length cs1) + int (length cs2))"
    using long by simp
  have sl: "py_slice ?sound (int (length cs1)) (int (length (cs1 @ butlast vs)) + 1) = vs"
    using slice by (simp only: ve)
  have vow': "sound_vowels os (py_slice ?sound (int (length cs1)) (int (length (cs1 @ butlast vs)) + 1))
        ((L - 15 * (int (length cs1) + int (length cs2))) div int (length vs)) pitch (heap m) [] =
      Inr (concat (map (\<lambda>obj. phoneme_text (obj_phoneme obj) ?d pitch) vs), s')"
    using vow by (simp only: sl append_Nil)
  have "process_sound os (PhonemeObj i p name) m =
          Inr (?ct cs1 @ concat (map (\<lambda>obj. phoneme_text (obj_phoneme obj) ?d pitch) vs) @ ?ct cs2,
               m\<lparr>heap := s'\<rparr>)"
    by (rule process_sound_steps [OF reg node head tail vcount vc ccount nl vow'])
  then show ?thesis by blast
qed

text \<open>
  C2 (confirmed). A registered sound of \<open>c\<close> consonants around \<open>v \<ge> 1\<close> vowels, invoked
  by a phoneme of the duration \<open>L \<ge> 15 * c\<close> and some pitch, is emitted as its leading
  consonants, each with the duration 15 and no pitch, its vowels, each with the
  duration \<open>(L - 15 * c) div v\<close> and the pitch of the invocation, and its trailing
  consonants, each with the duration 15 and no pitch (\<open>phoneme_text\<close> writes a duration
  or a pitch only when it is positive). The source \<^verbatim>\<open>[:sound ba] {b aa} ba<30>\<close> gives
  \<^verbatim>\<open>[b<15>][aa<15>]\<close>.
\<close>

theorem C2_sound_expansion:
  "(list_all is_consonant_obj cs1 \<and> list_all is_vowel_obj vs \<and> vs \<noteq> [] \<and>
    list_all is_consonant_obj cs2 \<and>
    name \<notin> set PHONEMES \<and> phrases (st m) (KStr name) = None \<and>
    sounds (st m) (KStr name) = Some (cs1 @ vs @ cs2) \<and>
    cells (heap m) i = Some (PhonemeCell (IntV L) pitch) \<and>
    15 * (int (length cs1) + int (length cs2)) \<le> L \<longrightarrow>
    (\<exists>m'. process_phoneme (Suc k) os pos0 (PhonemeObj i p name) m =
       Inr (concat (map (\<lambda>obj. phoneme_text (obj_phoneme obj) 15 0) cs1) @
            concat (map (\<lambda>obj. phoneme_text (obj_phoneme obj)
                            ((L - 15 * (int (length cs1) + int (length cs2))) div int (length vs))
                            pitch) vs) @
            concat (map (\<lambda>obj. phoneme_text (obj_phoneme obj) 15 0) cs2), m'))) \<and>
   emitted (compile 10 no_files [] ''[:sound ba] {b aa} ba<30>'') = Inr ''[b<15>][aa<15>]''"
proof -
  have e: "emitted (compile 10 no_files [] ''[:sound ba] {b aa} ba<30>'') = Inr ''[b<15>][aa<15>]''"
    by code_simp
  have g: "\<exists>m'. process_phoneme (Suc k) os pos0 (PhonemeObj i p name) m =
       Inr (concat (map (\<lambda>obj. phoneme_text (obj_phoneme obj) 15 0) cs1) @
            concat (map (\<lambda>obj. phoneme_text (obj_phoneme obj)
                            ((L - 15 * (int (length cs1) + int (length cs2))) div int (length vs))
                            pitch) vs) @
            concat (map (\<lambda>obj. phoneme_text (obj_phoneme obj) 15 0) cs2), m')"
    if shape: "list_all is_consonant_obj cs1" "list_all is_vowel_obj vs" "vs \<noteq> []"
              "list_all is_consonant_obj cs2"
      and nm: "name \<notin> set PHONEMES" "phrases (st m) (KStr name) = None"
      and reg: "sounds (st m) (KStr name) = Some (cs1 @ vs @ cs2)"
      and node: "cells (heap m) i = Some (PhonemeCell (IntV L) pitch)"
      and long: "15 * (int (length cs1) + int (length cs2)) \<le> L"
  proof -
    have "process_phoneme (Suc k) os pos0 (PhonemeObj i p name) m =
            process_sound os (PhonemeObj i p name) m"
      using nm reg by simp
    with process_sound_shape [OF shape reg node long, of os p] show ?thesis by simp
  qed
  from e g show ?thesis by blast
qed

lemma text_b_15: "phoneme_text ''b'' 15 0 = ''[b<15>]''"
  by code_simp

lemma text_aa_15_4: "phoneme_text ''aa'' 15 4 = ''[aa<15,4>]''"
  by code_simp

theorem C2_sound_expansion_witness:
  "\<exists>m'. process_phoneme (Suc 0) no_files (Position [])
           (PhonemeObj (Suc (Suc 0)) (Position []) ''ba'') sound_machine =
         Inr (''[b<15>][aa<15,4>]'', m')"
proof -
  have h: "list_all is_consonant_obj [PhonemeObj 0 (Position []) ''b'']"
          "list_all is_vowel_obj [PhonemeObj (Suc 0) (Position []) ''aa'']"
          "[PhonemeObj (Suc 0) (Position []) ''aa''] \<noteq> []"
          "list_all is_consonant_obj []"
    by (simp_all add: PHONEMES_CONSONANTS_def PHONEMES_VOWELS_def)
  have n: "''ba'' \<notin> set PHONEMES"
    by (simp add: PHONEMES_def PHONEMES_CONSONANTS_def PHONEMES_VOWELS_def PHONEMES_SYMBOLS_def)
  have q: "phrases (st sound_machine) (KStr ''ba'') = None"
    by (simp add: sound_machine_def State_def)
  have r: "sounds (st sound_machine) (KStr ''ba'') =
             Some ([PhonemeObj 0 (Position []) ''b''] @ [PhonemeObj (Suc 0) (Position []) ''aa''] @ [])"
    by (simp add: sound_machine_def)
  have c: "cells (heap sound_machine) (Suc (Suc 0)) = Some (PhonemeCell (IntV 30) 4)"
    by (simp add: sound_machine_def)
  have l: "15 * (int (length [PhonemeObj 0 (Position []) ''b'']) + int (length ([] :: onode list))) \<le> 30"
    by simp
  from C2_sound_expansion [of "[PhonemeObj 0 (Position []) ''b'']"
        "[PhonemeObj (Suc 0) (Position []) ''aa'']" "[]" "''ba''" sound_machine "Suc (Suc 0)"
        30 4 0 no_files "Position []" "Position []"] h n q r c l
  have "\<exists>m'. process_phoneme (Suc 0) no_files (Position [])
           (PhonemeObj (Suc (Suc 0)) (Position []) ''ba'') sound_machine =
         Inr (concat (map (\<lambda>obj. phoneme_text (obj_phoneme obj) 15 0) [PhonemeObj 0 (Position []) ''b'']) @
            concat (map (\<lambda>obj. phoneme_text (obj_phoneme obj)
                            ((30 - 15 * (int (length [PhonemeObj 0 (Position []) ''b'']) + int (length ([] :: onode list)))) div int (length [PhonemeObj (Suc 0) (Position []) ''aa'']))
                            4) [PhonemeObj (Suc 0) (Position []) ''aa'']) @
            concat (map (\<lambda>obj. phoneme_text (obj_phoneme obj) 15 0) []), m')"
    by blast
  then show ?thesis by (simp add: text_b_15 text_aa_15_4 del: process_phoneme.simps)
qed


subsection \<open>Replaying registered phrases and sounds\<close>




















end
